theory Spec2Isabelle
  imports Main "HOL-Library.AList"
begin

section \<open>JavaScript values\<close>

text \<open>
  A JavaScript string is a sequence of UTF-16 code units and \<open>length\<close> counts code
  units, so a string is modelled as the list of its code units (natural numbers).
  \<open>ascii\<close> writes an ASCII literal of the source as such a list.
\<close>

type_synonym jsstring = "nat list"

definition ascii :: "string \<Rightarrow> jsstring" where
  "ascii s = map of_char s"

text \<open>
  The values an event payload field can hold. Numbers matter only through their
  truthiness (\<open>0\<close> and \<open>NaN\<close> are falsy) and their type tag; \<open>JObj\<close> stands for
  any non-array object.
\<close>

datatype jsval =
    JUndefined
  | JNull
  | JBool bool
  | JNum int
  | JNaN
  | JStr jsstring
  | JArr "jsval list"
  | JObj

text \<open>\<open>!v\<close> is \<open>\<not> truthy v\<close>.\<close>

fun truthy :: "jsval \<Rightarrow> bool" where
  "truthy JUndefined = False"
| "truthy JNull = False"
| "truthy (JBool b) = b"
| "truthy (JNum n) = (n \<noteq> 0)"
| "truthy JNaN = False"
| "truthy (JStr s) = (s \<noteq> [])"
| "truthy (JArr xs) = True"
| "truthy JObj = True"

text \<open>\<open>typeof v === 'string'\<close> and \<open>Array.isArray(v)\<close>.\<close>

fun is_string :: "jsval \<Rightarrow> bool" where
  "is_string (JStr s) = True"
| "is_string v = False"

fun is_array :: "jsval \<Rightarrow> bool" where
  "is_array (JArr xs) = True"
| "is_array v = False"

text \<open>
  The code units of a string value and the elements of an array value; both are only
  read after the type test.
\<close>

fun string_of :: "jsval \<Rightarrow> jsstring" where
  "string_of (JStr s) = s"
| "string_of v = []"

fun elements :: "jsval \<Rightarrow> jsval list" where
  "elements (JArr xs) = xs"
| "elements v = []"

text \<open>
  \<open>String.prototype.trim\<close> removes leading and trailing WhiteSpace and LineTerminator
  code points: TAB, LF, VT, FF, CR, SP, NBSP, U+1680, U+2000..U+200A, U+2028, U+2029,
  U+202F, U+205F, U+3000 and U+FEFF. All of them are single code units.
\<close>

definition is_ws :: "nat \<Rightarrow> bool" where
  "is_ws c \<longleftrightarrow>
     c = 9 \<or> c = 10 \<or> c = 11 \<or> c = 12 \<or> c = 13 \<or> c = 32 \<or> c = 160 \<or> c = 5760 \<or>
     (8192 \<le> c \<and> c \<le> 8202) \<or> c = 8232 \<or> c = 8233 \<or> c = 8239 \<or> c = 8287 \<or>
     c = 12288 \<or> c = 65279"

definition trim :: "jsstring \<Rightarrow> jsstring" where
  "trim s = rev (dropWhile is_ws (rev (dropWhile is_ws s)))"

section \<open>Constants (server/utils/constants.js)\<close>

definition TEXT_CHAT :: jsstring where
  "TEXT_CHAT = ascii ''text-chat''"

definition SKIP :: jsstring where
  "SKIP = ascii ''skip''"

definition DISCONNECTED :: jsstring where
  "DISCONNECTED = ascii ''disconnected''"

definition MAX_MESSAGE_LENGTH :: nat where
  "MAX_MESSAGE_LENGTH = 500"

definition MAX_INTERESTS :: nat where
  "MAX_INTERESTS = 10"

section \<open>Input validation (server/utils/validators.js)\<close>

text \<open>
  A validator returns \<open>{ isValid: false, error }\<close> or \<open>{ isValid: true, <value> }\<close>.
  The error messages are named by a datatype.
\<close>

datatype verror =
    MessageNotString
  | MessageEmpty
  | MessageTooLong
  | InterestsNotArray
  | TooManyInterests

datatype 'a validation = Rejected verror | Accepted 'a

fun isValid :: "'a validation \<Rightarrow> bool" where
  "isValid (Rejected e) = False"
| "isValid (Accepted x) = True"

definition validateMessage :: "jsval \<Rightarrow> jsstring validation" where
  "validateMessage message =
     (if \<not> truthy message \<or> \<not> is_string message then Rejected MessageNotString
      else let trimmedMessage = trim (string_of message) in
        if length trimmedMessage = 0 then Rejected MessageEmpty
        else if length trimmedMessage > MAX_MESSAGE_LENGTH then Rejected MessageTooLong
        else Accepted trimmedMessage)"

text \<open>
  The filter of \<open>validateInterests\<close> keeps the entries
  \<open>typeof i === 'string' && i.trim().length > 0\<close>; the map then takes \<open>i.trim()\<close> of each
  kept entry.
\<close>

definition valid_interest :: "jsval \<Rightarrow> bool" where
  "valid_interest i \<longleftrightarrow> is_string i \<and> length (trim (string_of i)) > 0"

definition trim_interest :: "jsval \<Rightarrow> jsstring" where
  "trim_interest i = trim (string_of i)"

definition validateInterests :: "jsval \<Rightarrow> jsstring list validation" where
  "validateInterests interests =
     (if \<not> truthy interests then Accepted []
      else if \<not> is_array interests then Rejected InterestsNotArray
      else if length (elements interests) > MAX_INTERESTS then Rejected TooManyInterests
      else Accepted (map trim_interest (filter valid_interest (elements interests))))"

section \<open>Participant registry and matching (services/matchingService.js)\<close>

text \<open>
  An entry of \<open>onlineUsers\<close>. \<open>roomId\<close> is \<open>null\<close> (\<open>None\<close>) or a string.
\<close>

record user =
  interests :: "jsstring list"
  roomId :: "jsstring option"
  username :: jsstring

text \<open>
  \<open>onlineUsers\<close> is a JavaScript \<open>Map\<close>: it iterates in insertion order, \<open>set\<close> on a
  present key keeps the key's position, \<open>delete\<close> removes the key. It is modelled as an
  association list (\<open>AList.update\<close>, \<open>AList.delete\<close>, \<open>map_of\<close>); the keys of a
  \<open>Map\<close> are distinct. \<open>textChatUsers\<close> is a \<open>Set\<close> that is never iterated.
\<close>

record registry =
  onlineUsers :: "(jsstring \<times> user) list"
  textChatUsers :: "jsstring set"

definition wf_registry :: "registry \<Rightarrow> bool" where
  "wf_registry m \<longleftrightarrow> distinct (map fst (onlineUsers m))"

text \<open>
  No handler stores the empty string as a room id: the ids written are \<open>null\<close>,
  \<open>'text-chat'\<close> and the result of \<open>createRoom\<close>.
\<close>

definition room_ids_nonempty :: "registry \<Rightarrow> bool" where
  "room_ids_nonempty m \<longleftrightarrow> (\<forall>u \<in> snd ` set (onlineUsers m). roomId u \<noteq> Some [])"

definition registry_inv :: "registry \<Rightarrow> bool" where
  "registry_inv m \<longleftrightarrow> wf_registry m \<and> room_ids_nonempty m"

text \<open>
  The object passed to \<open>updateUser\<close> (and to \<open>addUser\<close> as \<open>userData\<close>): each field of
  an entry is either given or left out.
\<close>

record updates =
  upd_interests :: "jsstring list option"
  upd_roomId :: "jsstring option option"
  upd_username :: "jsstring option"

definition no_updates :: updates where
  "no_updates = \<lparr>upd_interests = None, upd_roomId = None, upd_username = None\<rparr>"

text \<open>\<open>Object.assign(user, updates)\<close>: every given field overwrites the entry's.\<close>

definition assign :: "user \<Rightarrow> updates \<Rightarrow> user" where
  "assign u upd =
     \<lparr>interests = (case upd_interests upd of None \<Rightarrow> interests u | Some i \<Rightarrow> i),
      roomId = (case upd_roomId upd of None \<Rightarrow> roomId u | Some r \<Rightarrow> r),
      username = (case upd_username upd of None \<Rightarrow> username u | Some n \<Rightarrow> n)\<rparr>"

definition getUser :: "jsstring \<Rightarrow> registry \<Rightarrow> user option" where
  "getUser socketId m = map_of (onlineUsers m) socketId"

text \<open>
  \<open>addUser\<close>; \<open>generated\<close> is the name \<open>`User${Math.floor(Math.random() * 1000)}`\<close>
  drawn for this call.
\<close>

definition addUser :: "jsstring \<Rightarrow> updates \<Rightarrow> jsstring \<Rightarrow> registry \<Rightarrow> user \<times> registry" where
  "addUser socketId userData generated m =
     (let name = (case upd_username userData of
                    None \<Rightarrow> generated
                  | Some n \<Rightarrow> if n = [] then generated else n);
          u = assign \<lparr>interests = (case upd_interests userData of None \<Rightarrow> [] | Some i \<Rightarrow> i),
                      roomId = None,
                      username = name\<rparr> userData
      in (u, m\<lparr>onlineUsers := AList.update socketId u (onlineUsers m)\<rparr>))"

definition removeUser :: "jsstring \<Rightarrow> registry \<Rightarrow> user option \<times> registry" where
  "removeUser socketId m =
     (getUser socketId m,
      m\<lparr>onlineUsers := AList.delete socketId (onlineUsers m),
        textChatUsers := textChatUsers m - {socketId}\<rparr>)"

definition updateUser :: "jsstring \<Rightarrow> updates \<Rightarrow> registry \<Rightarrow> user option \<times> registry" where
  "updateUser socketId upd m =
     (case getUser socketId m of
        None \<Rightarrow> (None, m)
      | Some u \<Rightarrow>
          (Some (assign u upd),
           m\<lparr>onlineUsers := AList.update socketId (assign u upd) (onlineUsers m)\<rparr>))"

definition getOnlineUserCount :: "registry \<Rightarrow> nat" where
  "getOnlineUserCount m = length (onlineUsers m)"

definition addToTextChat :: "jsstring \<Rightarrow> registry \<Rightarrow> registry" where
  "addToTextChat socketId m = m\<lparr>textChatUsers := insert socketId (textChatUsers m)\<rparr>"

definition isInTextChat :: "jsstring \<Rightarrow> registry \<Rightarrow> bool" where
  "isInTextChat socketId m \<longleftrightarrow> socketId \<in> textChatUsers m"

text \<open>\<open>!user.roomId\<close>: the room id is \<open>null\<close> or the empty string.\<close>

definition idle :: "user \<Rightarrow> bool" where
  "idle u \<longleftrightarrow> roomId u = None \<or> roomId u = Some []"

text \<open>
  \<open>user.interests.filter(i => interests && interests.includes(i))\<close>; the requester's
  \<open>interests\<close> is an array, hence truthy.
\<close>

definition commonInterests :: "user \<Rightarrow> jsstring list \<Rightarrow> jsstring list" where
  "commonInterests u ints = filter (\<lambda>i. i \<in> set ints) (interests u)"

text \<open>The two loops of \<open>findMatchingUser\<close> over \<open>onlineUsers.entries()\<close>.\<close>

fun interest_pass :: "jsstring \<Rightarrow> jsstring list \<Rightarrow> (jsstring \<times> user) list \<Rightarrow> jsstring option" where
  "interest_pass socketId ints [] = None"
| "interest_pass socketId ints ((uid, u) # rest) =
     (if uid \<noteq> socketId \<and> idle u \<and> length (interests u) > 0
         \<and> length (commonInterests u ints) > 0
      then Some uid
      else interest_pass socketId ints rest)"

fun fallback_pass :: "jsstring \<Rightarrow> (jsstring \<times> user) list \<Rightarrow> jsstring option" where
  "fallback_pass socketId [] = None"
| "fallback_pass socketId ((uid, u) # rest) =
     (if uid \<noteq> socketId \<and> idle u then Some uid else fallback_pass socketId rest)"

definition findMatchingUser :: "jsstring \<Rightarrow> jsstring list \<Rightarrow> registry \<Rightarrow> jsstring option" where
  "findMatchingUser socketId ints m =
     (case interest_pass socketId ints (onlineUsers m) of
        Some uid \<Rightarrow> Some uid
      | None \<Rightarrow> fallback_pass socketId (onlineUsers m))"

text \<open>
  The earlier copy of \<open>findMatchingUser\<close> kept beside the routes: its first loop has
  no \<open>user.interests.length > 0\<close> test.
\<close>

fun interest_pass_legacy :: "jsstring \<Rightarrow> jsstring list \<Rightarrow> (jsstring \<times> user) list \<Rightarrow> jsstring option" where
  "interest_pass_legacy socketId ints [] = None"
| "interest_pass_legacy socketId ints ((uid, u) # rest) =
     (if uid \<noteq> socketId \<and> idle u \<and> length (commonInterests u ints) > 0
      then Some uid
      else interest_pass_legacy socketId ints rest)"

definition findMatchingUser_legacy :: "jsstring \<Rightarrow> jsstring list \<Rightarrow> registry \<Rightarrow> jsstring option" where
  "findMatchingUser_legacy socketId ints m =
     (case interest_pass_legacy socketId ints (onlineUsers m) of
        Some uid \<Rightarrow> Some uid
      | None \<Rightarrow> fallback_pass socketId (onlineUsers m))"

text \<open>\<open>if (user) user.roomId = roomId\<close> on the entry of \<open>socketId\<close>.\<close>

definition set_room :: "jsstring \<Rightarrow> jsstring option \<Rightarrow> registry \<Rightarrow> registry" where
  "set_room socketId r m =
     (case getUser socketId m of
        None \<Rightarrow> m
      | Some u \<Rightarrow> m\<lparr>onlineUsers := AList.update socketId (u\<lparr>roomId := r\<rparr>) (onlineUsers m)\<rparr>)"

definition createRoom :: "jsstring \<Rightarrow> jsstring \<Rightarrow> registry \<Rightarrow> jsstring \<times> registry" where
  "createRoom socketId1 socketId2 m =
     (let newRoomId = ascii ''chat-'' @ socketId1 @ ascii ''-'' @ socketId2
      in (newRoomId, set_room socketId2 (Some newRoomId) (set_room socketId1 (Some newRoomId) m)))"

definition leaveRoom :: "jsstring \<Rightarrow> registry \<Rightarrow> jsstring option \<times> registry" where
  "leaveRoom socketId m =
     (case getUser socketId m of
        None \<Rightarrow> (None, m)
      | Some u \<Rightarrow>
          if idle u then (None, m)
          else (roomId u, set_room socketId None m))"

section \<open>Transport (the bidirectional event channel)\<close>

text \<open>
  What the handlers use of the event channel: the set of connected sockets
  (\<open>io.sockets.sockets\<close>) and the membership of each named room. A connected socket is a
  member of the room named by its own id; a socket that disconnects has left every room
  and the set of connected sockets when its \<open>disconnect\<close> handler runs.
\<close>

record server =
  svc :: registry
  rooms :: "jsstring \<Rightarrow> jsstring set"
  sockets :: "jsstring set"

datatype event =
    USER_COUNT nat
  | USER_JOINED jsstring
  | USER_LEFT "jsval option" "jsstring option"
  | MATCH_FOUND jsstring bool "jsstring list"

text \<open>
  \<open>USER_LEFT reason username\<close>: \<open>reason\<close> is \<open>None\<close> when the payload has no
  \<open>reason\<close> field, \<open>username\<close> is \<open>None\<close> when it is \<open>undefined\<close>.
  \<open>MATCH_FOUND roomId initiator interests\<close>. An emitted event is paired with the set of
  sockets it is sent to.
\<close>

type_synonym outbound = "jsstring set \<times> event"

text \<open>
  The members of the room(s) a client-supplied value names: a string names one room, an
  array names each room its string elements name, any other value names a room no socket
  has joined.
\<close>

fun members :: "server \<Rightarrow> jsval \<Rightarrow> jsstring set" where
  "members s (JStr r) = rooms s r"
| "members s (JArr xs) = (\<Union>x \<in> set xs. case x of JStr r \<Rightarrow> rooms s r | _ \<Rightarrow> {})"
| "members s v = {}"

text \<open>\<open>io.emit\<close>, \<open>io.to(room).emit\<close>, \<open>socket.to(room).emit\<close>, \<open>socket.emit\<close>.\<close>

definition io_emit :: "server \<Rightarrow> event \<Rightarrow> outbound" where
  "io_emit s ev = (sockets s, ev)"

definition io_to :: "server \<Rightarrow> jsstring \<Rightarrow> event \<Rightarrow> outbound" where
  "io_to s room ev = (rooms s room, ev)"

definition socket_to :: "server \<Rightarrow> jsstring \<Rightarrow> jsval \<Rightarrow> event \<Rightarrow> outbound" where
  "socket_to s socketId room ev = (members s room - {socketId}, ev)"

definition socket_emit :: "jsstring \<Rightarrow> event \<Rightarrow> outbound" where
  "socket_emit socketId ev = ({socketId}, ev)"

text \<open>\<open>socket.join(room)\<close> and \<open>socket.leave(room)\<close>.\<close>

definition socket_join :: "jsstring \<Rightarrow> jsstring \<Rightarrow> server \<Rightarrow> server" where
  "socket_join socketId room s = s\<lparr>rooms := (rooms s)(room := insert socketId (rooms s room))\<rparr>"

fun socket_leave :: "jsstring \<Rightarrow> jsval \<Rightarrow> server \<Rightarrow> server" where
  "socket_leave socketId (JStr room) s = s\<lparr>rooms := (rooms s)(room := rooms s room - {socketId})\<rparr>"
| "socket_leave socketId v s = s"

text \<open>The events of a list of emissions that reach a given socket, in order.\<close>

definition delivered :: "jsstring \<Rightarrow> outbound list \<Rightarrow> event list" where
  "delivered socketId out = map snd (filter (\<lambda>e. socketId \<in> fst e) out)"

section \<open>Event handlers (sockets/chatSocket.js)\<close>

text \<open>
  Each handler takes the id of the socket it is registered on, the event's payload and
  the server state, and returns the new state with the emissions it made, in order.
\<close>

definition on_connection :: "jsstring \<Rightarrow> jsstring \<Rightarrow> server \<Rightarrow> server \<times> outbound list" where
  "on_connection socketId generated s =
     (let s1 = s\<lparr>sockets := insert socketId (sockets s),
                 rooms := (rooms s)(socketId := insert socketId (rooms s socketId))\<rparr>;
          s2 = s1\<lparr>svc := snd (addUser socketId no_updates generated (svc s1))\<rparr>
      in (s2, [io_emit s2 (USER_COUNT (getOnlineUserCount (svc s2)))]))"

text \<open>
  The payload of \<open>join-room\<close> after \<open>const { roomId, interests = [] } = data || {}\<close>:
  a field the payload lacks is \<open>JUndefined\<close>, and the default \<open>[]\<close> replaces an
  \<open>undefined\<close> \<open>interests\<close> only.
\<close>

record join_data =
  jd_roomId :: jsval
  jd_interests :: jsval

definition interests_or_default :: "join_data \<Rightarrow> jsval" where
  "interests_or_default d = (if jd_interests d = JUndefined then JArr [] else jd_interests d)"

text \<open>The three outcomes of \<open>join-room\<close> once the interests are stored.\<close>

definition join_text_chat :: "jsstring \<Rightarrow> user \<Rightarrow> server \<Rightarrow> server \<times> outbound list" where
  "join_text_chat socketId u s1 =
     (let s2 = s1\<lparr>svc := snd (updateUser socketId
                        (no_updates\<lparr>upd_roomId := Some (Some TEXT_CHAT)\<rparr>) (svc s1))\<rparr>;
          s3 = s2\<lparr>svc := addToTextChat socketId (svc s2)\<rparr>;
          s4 = socket_join socketId TEXT_CHAT s3
      in (s4, [socket_to s4 socketId (JStr TEXT_CHAT) (USER_JOINED (username u))]))"

definition match_found :: "jsstring \<Rightarrow> jsstring \<Rightarrow> jsstring list \<Rightarrow> server \<Rightarrow> server \<times> outbound list" where
  "match_found socketId matchId ints s1 =
     (let matchUser = getUser matchId (svc s1);
          newRoomId = fst (createRoom socketId matchId (svc s1));
          s2 = s1\<lparr>svc := snd (createRoom socketId matchId (svc s1))\<rparr>;
          s3 = socket_join socketId newRoomId s2;
          s4 = (if matchId \<in> sockets s3 then socket_join matchId newRoomId s3 else s3)
      in (s4,
          [io_to s4 matchId (MATCH_FOUND newRoomId False ints),
           socket_emit socketId
             (MATCH_FOUND newRoomId True
                (case matchUser of None \<Rightarrow> [] | Some mu \<Rightarrow> interests mu))]))"

definition no_match :: "jsstring \<Rightarrow> server \<Rightarrow> server \<times> outbound list" where
  "no_match socketId s1 =
     (s1\<lparr>svc := snd (updateUser socketId (no_updates\<lparr>upd_roomId := Some None\<rparr>) (svc s1))\<rparr>, [])"

text \<open>\<open>if (matchId)\<close> is taken when the id is neither \<open>null\<close> nor the empty string.\<close>

definition on_join_room :: "jsstring \<Rightarrow> join_data \<Rightarrow> server \<Rightarrow> server \<times> outbound list" where
  "on_join_room socketId d s =
     (case getUser socketId (svc s) of
        None \<Rightarrow> (s, [])
      | Some u \<Rightarrow>
         (case validateInterests (interests_or_default d) of
            Rejected e \<Rightarrow> (s, [])
          | Accepted ints \<Rightarrow>
             (let s1 = s\<lparr>svc := snd (updateUser socketId
                                (no_updates\<lparr>upd_interests := Some ints\<rparr>) (svc s))\<rparr>
              in if jd_roomId d = JStr TEXT_CHAT then join_text_chat socketId u s1
                 else (case findMatchingUser socketId ints (svc s1) of
                         None \<Rightarrow> no_match socketId s1
                       | Some matchId \<Rightarrow>
                           if matchId = [] then no_match socketId s1
                           else match_found socketId matchId ints s1))))"

text \<open>The payload of \<open>leave-room\<close> after \<open>const { roomId, reason } = data || {}\<close>.\<close>

record leave_data =
  ld_roomId :: jsval
  ld_reason :: jsval

definition on_leave_room :: "jsstring \<Rightarrow> leave_data \<Rightarrow> server \<Rightarrow> server \<times> outbound list" where
  "on_leave_room socketId d s =
     (case getUser socketId (svc s) of
        None \<Rightarrow> (s, [])
      | Some u \<Rightarrow>
         (let (s1, out) =
                (if truthy (ld_roomId d) \<and> ld_roomId d \<noteq> JStr TEXT_CHAT then
                   (socket_leave socketId (ld_roomId d) s,
                    [socket_to s socketId (ld_roomId d)
                       (USER_LEFT (Some (if truthy (ld_reason d) then ld_reason d
                                         else JStr DISCONNECTED))
                                  (Some (username u)))])
                 else if ld_roomId d = JStr TEXT_CHAT then
                   (socket_leave socketId (JStr TEXT_CHAT) s,
                    [socket_to s socketId (JStr TEXT_CHAT) (USER_LEFT None (Some (username u)))])
                 else (s, []))
          in (s1\<lparr>svc := snd (leaveRoom socketId (svc s1))\<rparr>, out)))"

text \<open>
  \<open>disconnect\<close>: the transport has removed the socket from every room and from the
  connected sockets before the handler body runs.
\<close>

definition on_disconnect :: "jsstring \<Rightarrow> server \<Rightarrow> server \<times> outbound list" where
  "on_disconnect socketId s =
     (let s1 = s\<lparr>rooms := (\<lambda>r. rooms s r - {socketId}), sockets := sockets s - {socketId}\<rparr>;
          user = getUser socketId (svc s1);
          out1 = (case user of
                    None \<Rightarrow> []
                  | Some u \<Rightarrow>
                      (case roomId u of
                         None \<Rightarrow> []
                       | Some r \<Rightarrow>
                           if r \<noteq> [] \<and> r \<noteq> TEXT_CHAT
                           then [io_to s1 r (USER_LEFT (Some (JStr DISCONNECTED)) (Some (username u)))]
                           else []));
          out2 = (if isInTextChat socketId (svc s1)
                  then [io_to s1 TEXT_CHAT (USER_LEFT None (map_option username user))]
                  else []);
          s2 = s1\<lparr>svc := snd (removeUser socketId (svc s1))\<rparr>
      in (s2, out1 @ out2 @ [io_emit s2 (USER_COUNT (getOnlineUserCount (svc s2)))]))"

section \<open>Example states\<close>

text \<open>
  Three registered participants: \<open>a\<close> and \<open>b\<close> are waiting, \<open>c\<close> is in the text chat.
\<close>

definition user_a :: user where
  "user_a = \<lparr>interests = [ascii ''music''], roomId = None, username = ascii ''User1''\<rparr>"

definition user_b :: user where
  "user_b = \<lparr>interests = [ascii ''music'', ascii ''art''], roomId = None, username = ascii ''User2''\<rparr>"

definition user_c :: user where
  "user_c = \<lparr>interests = [], roomId = Some TEXT_CHAT, username = ascii ''User3''\<rparr>"

definition ex_registry :: registry where
  "ex_registry =
     \<lparr>onlineUsers = [(ascii ''a'', user_a), (ascii ''b'', user_b), (ascii ''c'', user_c)],
      textChatUsers = {ascii ''c''}\<rparr>"

text \<open>
  A run of the handlers from the empty server: \<open>a\<close> connects and asks for a partner
  (nobody else is registered, so it waits), then \<open>b\<close> connects and asks for a partner
  and is matched with \<open>a\<close>.
\<close>

definition s_init :: server where
  "s_init = \<lparr>svc = \<lparr>onlineUsers = [], textChatUsers = {}\<rparr>, rooms = (\<lambda>r. {}), sockets = {}\<rparr>"

definition join_a :: join_data where
  "join_a = \<lparr>jd_roomId = JNull, jd_interests = JArr [JStr (ascii ''music'')]\<rparr>"

definition join_b :: join_data where
  "join_b = \<lparr>jd_roomId = JNull,
             jd_interests = JArr [JStr (ascii ''music''), JStr (ascii ''art'')]\<rparr>"

definition s_waiting :: server where
  "s_waiting = fst (on_join_room (ascii ''a'') join_a
                 (fst (on_connection (ascii ''a'') (ascii ''User1'') s_init)))"

definition s_arrived :: server where
  "s_arrived = fst (on_connection (ascii ''b'') (ascii ''User2'') s_waiting)"

definition s_paired :: server where
  "s_paired = fst (on_join_room (ascii ''b'') join_b s_arrived)"

text \<open>A \<open>user-left\<close> event whose payload carries the given reason.\<close>

fun left_with_reason :: "jsstring \<Rightarrow> event \<Rightarrow> bool" where
  "left_with_reason reason (USER_LEFT (Some v) n) = (v = JStr reason)"
| "left_with_reason reason ev = False"

text \<open>Any \<open>user-left\<close> event.\<close>

fun is_user_left :: "event \<Rightarrow> bool" where
  "is_user_left (USER_LEFT reason n) = True"
| "is_user_left ev = False"

text \<open>
  A second continuation of the run: before \<open>a\<close> asks again, the connected \<open>b\<close> sends
  \<open>leave-room\<close> with its own socket id as the room id.
\<close>

definition leave_own :: leave_data where
  "leave_own = \<lparr>ld_roomId = JStr (ascii ''b''), ld_reason = JUndefined\<rparr>"

definition s_left_own :: server where
  "s_left_own = fst (on_leave_room (ascii ''b'') leave_own s_arrived)"

text \<open>
  A run in which both participants are also in the text chat: \<open>b\<close> connects, joins the
  text chat and asks for a partner (nobody else is registered, so it waits); then \<open>a\<close>
  connects, joins the text chat, asks for a partner and is matched with \<open>b\<close>.
\<close>

definition join_text :: join_data where
  "join_text = \<lparr>jd_roomId = JStr TEXT_CHAT, jd_interests = JArr []\<rparr>"

definition join_any :: join_data where
  "join_any = \<lparr>jd_roomId = JNull, jd_interests = JArr []\<rparr>"

definition t_waiting :: server where
  "t_waiting = fst (on_join_room (ascii ''b'') join_any
                 (fst (on_join_room (ascii ''b'') join_text
                   (fst (on_connection (ascii ''b'') (ascii ''User2'') s_init)))))"

definition t_paired :: server where
  "t_paired = fst (on_join_room (ascii ''a'') join_any
                (fst (on_join_room (ascii ''a'') join_text
                  (fst (on_connection (ascii ''a'') (ascii ''User1'') t_waiting)))))"

section \<open>Properties of input validation\<close>

lemma trim_Nil: "trim [] = []"
  by (simp add: trim_def)

lemma validateMessage_JStr [simp]:
  "validateMessage (JStr s) =
     (if s = [] then Rejected MessageNotString
      else if trim s = [] then Rejected MessageEmpty
      else if length (trim s) > MAX_MESSAGE_LENGTH then Rejected MessageTooLong
      else Accepted (trim s))"
  by (simp add: validateMessage_def Let_def)

lemma validateMessage_not_string [simp]:
  "\<not> is_string v \<Longrightarrow> validateMessage v = Rejected MessageNotString"
  by (simp add: validateMessage_def)

lemma valid_interest_simps [simp]:
  "valid_interest (JStr i) \<longleftrightarrow> trim i \<noteq> []"
  "\<not> is_string v \<Longrightarrow> \<not> valid_interest v"
  by (simp_all add: valid_interest_def)

lemma trim_interest_JStr [simp]: "trim_interest (JStr i) = trim i"
  by (simp add: trim_interest_def)

lemma validateInterests_JArr:
  "validateInterests (JArr xs) =
     (if length xs > MAX_INTERESTS then Rejected TooManyInterests
      else Accepted (map trim_interest (filter valid_interest xs)))"
  by (simp add: validateInterests_def)

lemma trim_replicate: "\<not> is_ws c \<Longrightarrow> trim (replicate n c) = replicate n c"
  by (cases n) (simp_all add: trim_def replicate_append_same[symmetric] del: replicate_Suc)

lemma last_dropWhile_keep: "dropWhile P ys \<noteq> [] \<Longrightarrow> last (dropWhile P ys) = last ys"
  by (induction ys) (auto split: if_splits)

text \<open>A non-empty trimmed string neither starts nor ends with whitespace.\<close>

lemma trim_hd: "trim s \<noteq> [] \<Longrightarrow> \<not> is_ws (hd (trim s))"
proof -
  assume ne: "trim s \<noteq> []"
  let ?d = "dropWhile is_ws s"
  from ne have r: "dropWhile is_ws (rev ?d) \<noteq> []" by (simp add: trim_def)
  have d: "?d \<noteq> []"
  proof
    assume "?d = []"
    with r show False by simp
  qed
  have "hd (trim s) = last (dropWhile is_ws (rev ?d))"
    using r by (simp add: trim_def hd_rev)
  also have "\<dots> = last (rev ?d)" using r by (rule last_dropWhile_keep)
  also have "\<dots> = hd ?d" using d by (simp add: last_rev)
  finally show ?thesis using d hd_dropWhile[of is_ws s] by simp
qed

lemma trim_last: "trim s \<noteq> [] \<Longrightarrow> \<not> is_ws (last (trim s))"
proof -
  assume ne: "trim s \<noteq> []"
  let ?d = "dropWhile is_ws s"
  from ne have r: "dropWhile is_ws (rev ?d) \<noteq> []" by (simp add: trim_def)
  have "last (trim s) = hd (dropWhile is_ws (rev ?d))"
    using r by (simp add: trim_def last_rev)
  then show ?thesis using r hd_dropWhile[of is_ws "rev ?d"] by simp
qed

lemma interests_comprehension:
  "map trim_interest (filter valid_interest xs) = [trim i. JStr i \<leftarrow> xs, trim i \<noteq> []]"
proof (induction xs)
  case Nil
  then show ?case by simp
next
  case (Cons x xs)
  then show ?case by (cases x) simp_all
qed

lemma too_many_interests:
  "length xs > 10 \<Longrightarrow> validateInterests (JArr xs) = Rejected TooManyInterests"
  by (simp add: validateInterests_def MAX_INTERESTS_def)

lemma few_interests:
  "length xs \<le> 10 \<Longrightarrow>
     validateInterests (JArr xs) = Accepted (map trim_interest (filter valid_interest xs))"
  by (simp add: validateInterests_def MAX_INTERESTS_def)

lemma join_rejected:
  "validateInterests (interests_or_default d) = Rejected e \<Longrightarrow> on_join_room sid d s = (s, [])"
  by (simp add: on_join_room_def split: option.splits)

text \<open>
  Claim C6. For a string, \<open>validateMessage\<close> succeeds exactly when the trimmed length is
  between 1 and 500, and then returns the trimmed string; a message whose trimmed length
  is 501 is rejected, a string that is empty after trimming is rejected, and a value that
  is not a string is rejected. Every input gets a result: there is no raising branch.
\<close>

theorem validateMessage_accepts_iff:
  "(isValid (validateMessage (JStr s)) \<longleftrightarrow> 1 \<le> length (trim s) \<and> length (trim s) \<le> 500)
   \<and> (isValid (validateMessage (JStr s)) \<longrightarrow> validateMessage (JStr s) = Accepted (trim s))
   \<and> (length (trim s) = 501 \<longrightarrow> \<not> isValid (validateMessage (JStr s)))
   \<and> (trim s = [] \<longrightarrow> \<not> isValid (validateMessage (JStr s)))
   \<and> (\<not> is_string v \<longrightarrow> \<not> isValid (validateMessage v))"
proof -
  have a: "isValid (validateMessage (JStr s)) \<longleftrightarrow> 1 \<le> length (trim s) \<and> length (trim s) \<le> 500"
    by (cases "s = []") (auto simp: Let_def MAX_MESSAGE_LENGTH_def trim_Nil Suc_le_eq)
  have b: "isValid (validateMessage (JStr s)) \<longrightarrow> validateMessage (JStr s) = Accepted (trim s)"
    by (auto simp: Let_def split: if_splits)
  have c: "\<not> is_string v \<longrightarrow> \<not> isValid (validateMessage v)"
    by (cases v) simp_all
  from a b c show ?thesis by simp
qed

theorem validateMessage_accepts_iff_witness:
  "validateMessage (JStr [32, 104, 105, 32]) = Accepted [104, 105]
   \<and> \<not> isValid (validateMessage (JStr (replicate 501 97)))
   \<and> \<not> isValid (validateMessage (JStr [32, 9]))
   \<and> \<not> isValid (validateMessage (JNum 5))"
proof -
  have t1: "trim [32, 104, 105, 32] = [104, 105]" by (simp add: trim_def is_ws_def)
  have t2: "trim (replicate 501 97) = replicate 501 97" by (simp add: trim_replicate is_ws_def)
  have t3: "trim [32, 9] = []" by (simp add: trim_def is_ws_def)
  show ?thesis
    using validateMessage_accepts_iff[of "[32, 104, 105, 32]" "JNum 5"]
      validateMessage_accepts_iff[of "replicate 501 97" "JNum 5"]
      validateMessage_accepts_iff[of "[32, 9]" "JNum 5"]
    by (simp add: t1 t2 t3)
qed

text \<open>
  Claim C1, as stated, fails: an array of eleven interests is rejected as a whole
  (\<open>Too many interests\<close>), and the \<open>join-room\<close> handler then returns without changing
  the state or emitting anything.
\<close>

theorem validateInterests_eleven_rejected:
  "validateInterests (JArr [JStr [97], JStr [98], JStr [99], JStr [100], JStr [101], JStr [102],
      JStr [103], JStr [104], JStr [105], JStr [106], JStr [107]]) = Rejected TooManyInterests"
  by (simp add: validateInterests_def MAX_INTERESTS_def)

text \<open>
  Claim C1, amended. An interests array of more than 10 entries is rejected as a whole
  and the \<open>join-room\<close> handler leaves the state unchanged and emits nothing. An array of
  at most 10 entries is accepted: the result is, in order, the trim of every entry that
  is a string with a non-empty trim; the other entries are dropped. The result has at
  most 10 entries, each non-empty and without leading or trailing whitespace.
\<close>

theorem validateInterests_array:
  "(length xs > 10 \<longrightarrow>
      validateInterests (JArr xs) = Rejected TooManyInterests
      \<and> on_join_room sid \<lparr>jd_roomId = r, jd_interests = JArr xs\<rparr> s = (s, []))
   \<and> (length xs \<le> 10 \<longrightarrow>
      (\<exists>ys. validateInterests (JArr xs) = Accepted ys
         \<and> ys = [trim i. JStr i \<leftarrow> xs, trim i \<noteq> []]
         \<and> length ys \<le> 10
         \<and> (\<forall>y \<in> set ys. y \<noteq> [] \<and> \<not> is_ws (hd y) \<and> \<not> is_ws (last y))))"
proof (intro conjI impI)
  assume "length xs > 10"
  then show "validateInterests (JArr xs) = Rejected TooManyInterests"
    by (rule too_many_interests)
  then show "on_join_room sid \<lparr>jd_roomId = r, jd_interests = JArr xs\<rparr> s = (s, [])"
    by (intro join_rejected[where e = TooManyInterests]) (simp add: interests_or_default_def)
next
  assume le: "length xs \<le> 10"
  let ?ys = "map trim_interest (filter valid_interest xs)"
  have "length ?ys \<le> length xs" by simp
  with le have len: "length ?ys \<le> 10" by linarith
  have ent: "\<forall>y \<in> set ?ys. y \<noteq> [] \<and> \<not> is_ws (hd y) \<and> \<not> is_ws (last y)"
  proof
    fix y assume "y \<in> set ?ys"
    then obtain x where x: "x \<in> set xs" "valid_interest x" "y = trim_interest x" by auto
    from x(2) obtain i where "x = JStr i" by (cases x) simp_all
    with x have "y = trim i" "trim i \<noteq> []" by simp_all
    then show "y \<noteq> [] \<and> \<not> is_ws (hd y) \<and> \<not> is_ws (last y)"
      using trim_hd[of i] trim_last[of i] by simp
  qed
  show "\<exists>ys. validateInterests (JArr xs) = Accepted ys
         \<and> ys = [trim i. JStr i \<leftarrow> xs, trim i \<noteq> []]
         \<and> length ys \<le> 10
         \<and> (\<forall>y \<in> set ys. y \<noteq> [] \<and> \<not> is_ws (hd y) \<and> \<not> is_ws (last y))"
    using few_interests[OF le] interests_comprehension[of xs] len ent by metis
qed

theorem validateInterests_array_witness:
  "validateInterests (JArr (replicate 11 (JStr [97]))) = Rejected TooManyInterests
   \<and> validateInterests (JArr [JStr [32, 97, 32], JNum 3, JStr [32], JStr [98]])
       = Accepted [[97], [98]]"
proof -
  have t: "trim [32, 97, 32] = [97]" "trim [32] = []" "trim [98] = [98]"
    by (simp_all add: trim_def is_ws_def)
  show ?thesis
    using validateInterests_array[of "replicate 11 (JStr [97])"]
      validateInterests_array[of "[JStr [32, 97, 32], JNum 3, JStr [32], JStr [98]]"]
    by (simp add: t)
qed

text \<open>
  Claim C9. For \<open>null\<close> and for \<open>undefined\<close>, \<open>validateInterests\<close> succeeds with the
  empty list, and a \<open>join-room\<close> request whose \<open>interests\<close> is \<open>undefined\<close> (left out)
  or \<open>null\<close> is handled exactly as one whose \<open>interests\<close> is the empty array.
\<close>

theorem validateInterests_absent:
  "validateInterests JNull = Accepted []
   \<and> validateInterests JUndefined = Accepted []
   \<and> on_join_room sid \<lparr>jd_roomId = r, jd_interests = JUndefined\<rparr> s
       = on_join_room sid \<lparr>jd_roomId = r, jd_interests = JArr []\<rparr> s
   \<and> on_join_room sid \<lparr>jd_roomId = r, jd_interests = JNull\<rparr> s
       = on_join_room sid \<lparr>jd_roomId = r, jd_interests = JArr []\<rparr> s"
  by (simp add: validateInterests_def on_join_room_def interests_or_default_def
      cong: option.case_cong validation.case_cong)

section \<open>Properties of the registry\<close>

lemma getUser_removeUser:
  "getUser x (snd (removeUser sid m)) = (if x = sid then None else getUser x m)"
  by (simp add: removeUser_def getUser_def delete_conv)

lemma removeUser_twice: "snd (removeUser sid (snd (removeUser sid m))) = snd (removeUser sid m)"
  by (simp add: removeUser_def delete_idem)

lemma getUser_updateUser:
  "getUser x (snd (updateUser sid upd m)) =
     (if x = sid then map_option (\<lambda>u. assign u upd) (getUser sid m) else getUser x m)"
  by (simp add: updateUser_def getUser_def update_conv' split: option.splits)

lemma keys_updateUser:
  "map fst (onlineUsers (snd (updateUser sid upd m))) = map fst (onlineUsers m)"
  by (auto simp: updateUser_def getUser_def update_keys map_of_eq_None_iff split: option.splits)

lemma textChat_updateUser: "textChatUsers (snd (updateUser sid upd m)) = textChatUsers m"
  by (simp add: updateUser_def split: option.splits)

lemma getUser_set_room:
  "getUser x (set_room sid r m) =
     (if x = sid then map_option (\<lambda>u. u\<lparr>roomId := r\<rparr>) (getUser sid m) else getUser x m)"
  by (simp add: set_room_def getUser_def update_conv' split: option.splits)

lemma keys_set_room: "map fst (onlineUsers (set_room sid r m)) = map fst (onlineUsers m)"
  by (auto simp: set_room_def getUser_def update_keys map_of_eq_None_iff split: option.splits)

lemma textChat_set_room: "textChatUsers (set_room sid r m) = textChatUsers m"
  by (simp add: set_room_def split: option.splits)

lemma getUser_createRoom:
  "getUser x (snd (createRoom a b m)) =
     (if x = a \<or> x = b
      then map_option (\<lambda>u. u\<lparr>roomId := Some (ascii ''chat-'' @ a @ ascii ''-'' @ b)\<rparr>) (getUser x m)
      else getUser x m)"
  by (cases "getUser x m") (auto simp: createRoom_def Let_def getUser_set_room)

lemma ex_registry_get:
  "getUser (ascii ''a'') ex_registry = Some user_a"
  "getUser (ascii ''b'') ex_registry = Some user_b"
  "getUser (ascii ''c'') ex_registry = Some user_c"
  "getUser (ascii ''z'') ex_registry = None"
  by (simp_all add: getUser_def ex_registry_def ascii_def)

text \<open>
  Claim C7. \<open>removeUser\<close> returns the entry of the id (the entry itself when the id is
  present) and removes it; a second call with the same id returns \<open>undefined\<close> and
  leaves the registry as the first call left it; afterwards \<open>getUser\<close> finds nothing
  for the id, and every other id keeps its entry. No branch of \<open>removeUser\<close> raises:
  an absent id gives \<open>None\<close>.
\<close>

theorem removeUser_idempotent:
  "(getUser sid m = Some u \<longrightarrow> fst (removeUser sid m) = Some u)
   \<and> (getUser sid m = None \<longrightarrow> fst (removeUser sid m) = None)
   \<and> getUser sid (snd (removeUser sid m)) = None
   \<and> fst (removeUser sid (snd (removeUser sid m))) = None
   \<and> snd (removeUser sid (snd (removeUser sid m))) = snd (removeUser sid m)
   \<and> (\<forall>x. x \<noteq> sid \<longrightarrow> getUser x (snd (removeUser sid m)) = getUser x m)"
proof -
  have ret: "fst (removeUser sid m) = getUser sid m"
    by (simp add: removeUser_def)
  have gone: "getUser sid (snd (removeUser sid m)) = None"
    by (simp add: getUser_removeUser)
  have again: "fst (removeUser sid (snd (removeUser sid m))) = None"
    using gone by (simp add: removeUser_def)
  show ?thesis
    using ret gone again removeUser_twice[of sid m] by (simp add: getUser_removeUser)
qed

theorem removeUser_idempotent_witness:
  "fst (removeUser (ascii ''a'') ex_registry) = Some user_a
   \<and> fst (removeUser (ascii ''z'') ex_registry) = None
   \<and> fst (removeUser (ascii ''a'') (snd (removeUser (ascii ''a'') ex_registry))) = None
   \<and> getUser (ascii ''a'') (snd (removeUser (ascii ''a'') ex_registry)) = None
   \<and> getUser (ascii ''b'') (snd (removeUser (ascii ''a'') ex_registry)) = Some user_b"
proof -
  have ne: "ascii ''b'' \<noteq> ascii ''a''" by (simp add: ascii_def)
  show ?thesis
    using removeUser_idempotent[of "ascii ''a''" ex_registry user_a]
      removeUser_idempotent[of "ascii ''z''" ex_registry user_a] ne
    by (simp add: ex_registry_get)
qed

text \<open>
  Claim C8. For an id absent from the registry \<open>updateUser\<close> returns \<open>undefined\<close> and
  the registry is unchanged. For a present id the entry becomes the old entry with every
  supplied field overwritten and every other field kept, and this entry is returned. In
  both cases every other id keeps its entry, and the iteration order of the ids and the
  text chat set are unchanged.
\<close>

theorem updateUser_noop_or_merge:
  "(getUser sid m = None \<longrightarrow> updateUser sid upd m = (None, m))
   \<and> (getUser sid m = Some u \<longrightarrow>
        (\<exists>u'. fst (updateUser sid upd m) = Some u'
           \<and> getUser sid (snd (updateUser sid upd m)) = Some u'
           \<and> interests u' = (case upd_interests upd of None \<Rightarrow> interests u | Some i \<Rightarrow> i)
           \<and> roomId u' = (case upd_roomId upd of None \<Rightarrow> roomId u | Some r \<Rightarrow> r)
           \<and> username u' = (case upd_username upd of None \<Rightarrow> username u | Some n \<Rightarrow> n)))
   \<and> (\<forall>x. x \<noteq> sid \<longrightarrow> getUser x (snd (updateUser sid upd m)) = getUser x m)
   \<and> map fst (onlineUsers (snd (updateUser sid upd m))) = map fst (onlineUsers m)
   \<and> textChatUsers (snd (updateUser sid upd m)) = textChatUsers m"
proof (intro conjI impI allI)
  assume "getUser sid m = None"
  then show "updateUser sid upd m = (None, m)"
    by (simp add: updateUser_def)
next
  assume p: "getUser sid m = Some u"
  then have "fst (updateUser sid upd m) = Some (assign u upd)"
    by (simp add: updateUser_def)
  moreover from p have "getUser sid (snd (updateUser sid upd m)) = Some (assign u upd)"
    by (simp add: getUser_updateUser)
  ultimately show "\<exists>u'. fst (updateUser sid upd m) = Some u'
           \<and> getUser sid (snd (updateUser sid upd m)) = Some u'
           \<and> interests u' = (case upd_interests upd of None \<Rightarrow> interests u | Some i \<Rightarrow> i)
           \<and> roomId u' = (case upd_roomId upd of None \<Rightarrow> roomId u | Some r \<Rightarrow> r)
           \<and> username u' = (case upd_username upd of None \<Rightarrow> username u | Some n \<Rightarrow> n)"
    by (simp add: assign_def)
next
  fix x assume "x \<noteq> sid"
  then show "getUser x (snd (updateUser sid upd m)) = getUser x m"
    by (simp add: getUser_updateUser)
next
  show "map fst (onlineUsers (snd (updateUser sid upd m))) = map fst (onlineUsers m)"
    by (rule keys_updateUser)
next
  show "textChatUsers (snd (updateUser sid upd m)) = textChatUsers m"
    by (rule textChat_updateUser)
qed

theorem updateUser_noop_or_merge_witness:
  "updateUser (ascii ''z'') (no_updates\<lparr>upd_roomId := Some (Some TEXT_CHAT)\<rparr>) ex_registry
     = (None, ex_registry)
   \<and> getUser (ascii ''a'')
        (snd (updateUser (ascii ''a'') (no_updates\<lparr>upd_roomId := Some (Some TEXT_CHAT)\<rparr>) ex_registry))
     = Some (user_a\<lparr>roomId := Some TEXT_CHAT\<rparr>)
   \<and> getUser (ascii ''b'')
        (snd (updateUser (ascii ''a'') (no_updates\<lparr>upd_roomId := Some (Some TEXT_CHAT)\<rparr>) ex_registry))
     = Some user_b"
proof -
  have ne: "ascii ''b'' \<noteq> ascii ''a''" by (simp add: ascii_def)
  have eq: "\<And>u'. interests u' = interests user_a \<and> roomId u' = Some TEXT_CHAT
              \<and> username u' = username user_a \<Longrightarrow> u' = user_a\<lparr>roomId := Some TEXT_CHAT\<rparr>"
    by simp
  show ?thesis
    using updateUser_noop_or_merge[of "ascii ''z''" ex_registry
        "no_updates\<lparr>upd_roomId := Some (Some TEXT_CHAT)\<rparr>" user_a]
      updateUser_noop_or_merge[of "ascii ''a''" ex_registry
        "no_updates\<lparr>upd_roomId := Some (Some TEXT_CHAT)\<rparr>" user_a] ne eq
    by (auto simp: ex_registry_get no_updates_def)
qed

text \<open>
  Claim C10. \<open>createRoom a b\<close> returns \<open>"chat-" ++ a ++ "-" ++ b\<close>. Afterwards the entry
  of \<open>a\<close> and the entry of \<open>b\<close>, where present, are the old entries with \<open>roomId\<close> set to
  the returned id; an absent id stays absent; every other id keeps its entry; the
  iteration order of the ids and the text chat set are unchanged.
\<close>

theorem createRoom_frame:
  "fst (createRoom a b m) = ascii ''chat-'' @ a @ ascii ''-'' @ b
   \<and> (\<forall>x. getUser x (snd (createRoom a b m)) =
         (if x = a \<or> x = b
          then map_option (\<lambda>u. u\<lparr>roomId := Some (fst (createRoom a b m))\<rparr>) (getUser x m)
          else getUser x m))
   \<and> map fst (onlineUsers (snd (createRoom a b m))) = map fst (onlineUsers m)
   \<and> textChatUsers (snd (createRoom a b m)) = textChatUsers m"
proof -
  have r: "fst (createRoom a b m) = ascii ''chat-'' @ a @ ascii ''-'' @ b"
    by (simp add: createRoom_def Let_def)
  have k: "map fst (onlineUsers (snd (createRoom a b m))) = map fst (onlineUsers m)"
    by (simp add: createRoom_def Let_def keys_set_room)
  have t: "textChatUsers (snd (createRoom a b m)) = textChatUsers m"
    by (simp add: createRoom_def Let_def textChat_set_room)
  show ?thesis
    unfolding r using k t by (simp add: getUser_createRoom)
qed

theorem createRoom_frame_witness:
  "fst (createRoom (ascii ''a'') (ascii ''z'') ex_registry) = ascii ''chat-a-z''
   \<and> getUser (ascii ''a'') (snd (createRoom (ascii ''a'') (ascii ''z'') ex_registry))
       = Some (user_a\<lparr>roomId := Some (ascii ''chat-a-z'')\<rparr>)
   \<and> getUser (ascii ''z'') (snd (createRoom (ascii ''a'') (ascii ''z'') ex_registry)) = None
   \<and> getUser (ascii ''b'') (snd (createRoom (ascii ''a'') (ascii ''z'') ex_registry)) = Some user_b"
proof -
  have ne: "ascii ''z'' \<noteq> ascii ''a''" "ascii ''b'' \<noteq> ascii ''a''" "ascii ''b'' \<noteq> ascii ''z''"
    by (simp_all add: ascii_def)
  have nm: "ascii ''chat-'' @ ascii ''a'' @ ascii ''-'' @ ascii ''z'' = ascii ''chat-a-z''"
    by (simp add: ascii_def)
  show ?thesis
    using createRoom_frame[of "ascii ''a''" "ascii ''z''" ex_registry] ne
    by (simp add: ex_registry_get nm)
qed

section \<open>Invariants of the registry\<close>

text \<open>
  Every handler keeps the keys of the registry distinct and the stored room ids
  non-empty, and the empty server has both properties.
\<close>

lemma set_update_subset: "set (AList.update k v al) \<subseteq> insert (k, v) (set al)"
  by (induction al) auto

lemma set_delete_subset: "set (AList.delete k al) \<subseteq> set al"
  by (induction al) auto

lemma inv_update:
  assumes inv: "registry_inv m" and v: "roomId v \<noteq> Some []"
  shows "registry_inv (m\<lparr>onlineUsers := AList.update k v (onlineUsers m)\<rparr>)"
proof -
  have "roomId u \<noteq> Some []" if "u \<in> snd ` set (AList.update k v (onlineUsers m))" for u
  proof -
    from that obtain x where "(x, u) \<in> set (AList.update k v (onlineUsers m))" by auto
    with set_update_subset[of k v "onlineUsers m"]
    have "u = v \<or> u \<in> snd ` set (onlineUsers m)" by force
    with inv v show ?thesis by (auto simp: registry_inv_def room_ids_nonempty_def)
  qed
  moreover have "distinct (map fst (AList.update k v (onlineUsers m)))"
    using inv by (simp add: registry_inv_def wf_registry_def distinct_update)
  ultimately show ?thesis
    by (simp add: registry_inv_def wf_registry_def room_ids_nonempty_def)
qed

lemma inv_entry:
  "registry_inv m \<Longrightarrow> getUser x m = Some u \<Longrightarrow> roomId u \<noteq> Some []"
  by (force simp: registry_inv_def room_ids_nonempty_def getUser_def dest: map_of_SomeD)

lemma inv_addUser: "registry_inv m \<Longrightarrow> registry_inv (snd (addUser sid no_updates gen m))"
  by (simp add: addUser_def Let_def inv_update assign_def no_updates_def)

lemma inv_removeUser: "registry_inv m \<Longrightarrow> registry_inv (snd (removeUser sid m))"
  using set_delete_subset[of sid "onlineUsers m"]
  by (auto simp: removeUser_def registry_inv_def wf_registry_def room_ids_nonempty_def distinct_delete)

lemma inv_updateUser:
  "registry_inv m \<Longrightarrow> upd_roomId upd \<noteq> Some (Some []) \<Longrightarrow> registry_inv (snd (updateUser sid upd m))"
  by (auto simp: updateUser_def assign_def inv_update inv_entry split: option.splits)

lemma inv_set_room: "registry_inv m \<Longrightarrow> r \<noteq> Some [] \<Longrightarrow> registry_inv (set_room sid r m)"
  by (auto simp: set_room_def inv_update split: option.splits)

lemma inv_createRoom: "registry_inv m \<Longrightarrow> registry_inv (snd (createRoom a b m))"
  by (simp add: createRoom_def Let_def inv_set_room ascii_def)

lemma inv_leaveRoom: "registry_inv m \<Longrightarrow> registry_inv (snd (leaveRoom sid m))"
  by (simp add: leaveRoom_def inv_set_room split: option.splits)

lemma text_chat_nonempty: "TEXT_CHAT \<noteq> []"
  by (simp add: TEXT_CHAT_def ascii_def)

lemma inv_init: "registry_inv (svc s_init)"
  by (simp add: s_init_def registry_inv_def wf_registry_def room_ids_nonempty_def)

lemma inv_on_connection: "registry_inv (svc s) \<Longrightarrow> registry_inv (svc (fst (on_connection sid gen s)))"
  by (simp add: on_connection_def Let_def inv_addUser)

lemma svc_socket_join: "svc (socket_join sid r s) = svc s"
  by (simp add: socket_join_def)

lemma svc_socket_leave: "svc (socket_leave sid v s) = svc s"
  by (cases v) simp_all

lemma inv_textChat: "registry_inv (m\<lparr>textChatUsers := X\<rparr>) = registry_inv m"
  by (simp add: registry_inv_def wf_registry_def room_ids_nonempty_def)

lemma inv_join_text_chat:
  "registry_inv (svc s) \<Longrightarrow> registry_inv (svc (fst (join_text_chat sid u s)))"
  by (simp add: join_text_chat_def Let_def svc_socket_join addToTextChat_def inv_textChat
      inv_updateUser no_updates_def text_chat_nonempty)

lemma inv_match_found:
  "registry_inv (svc s) \<Longrightarrow> registry_inv (svc (fst (match_found sid c ints s)))"
  by (simp add: match_found_def Let_def svc_socket_join inv_createRoom)

lemma inv_no_match:
  "registry_inv (svc s) \<Longrightarrow> registry_inv (svc (fst (no_match sid s)))"
  by (simp add: no_match_def inv_updateUser no_updates_def)

lemma inv_on_join_room:
  assumes "registry_inv (svc s)"
  shows "registry_inv (svc (fst (on_join_room sid d s)))"
proof -
  have s1: "registry_inv (svc (s\<lparr>svc := snd (updateUser sid (no_updates\<lparr>upd_interests := Some ints\<rparr>) (svc s))\<rparr>))"
    for ints
    using assms by (simp add: inv_updateUser no_updates_def)
  show ?thesis
    using assms s1
    by (simp add: on_join_room_def Let_def inv_join_text_chat inv_match_found inv_no_match
        split: option.splits validation.splits)
qed

lemma inv_on_leave_room:
  assumes "registry_inv (svc s)"
  shows "registry_inv (svc (fst (on_leave_room sid d s)))"
  using assms
  by (simp add: on_leave_room_def Let_def inv_leaveRoom svc_socket_leave split: option.splits)

lemma inv_on_disconnect:
  assumes "registry_inv (svc s)"
  shows "registry_inv (svc (fst (on_disconnect sid s)))"
  using assms by (simp add: on_disconnect_def Let_def inv_removeUser)

lemma idle_iff_null: "registry_inv m \<Longrightarrow> getUser x m = Some u \<Longrightarrow> idle u \<longleftrightarrow> roomId u = None"
  using inv_entry[of m x u] by (auto simp: idle_def)

section \<open>Properties of matching\<close>

lemma interest_pass_Some:
  "interest_pass sid ints al = Some c \<Longrightarrow>
     c \<noteq> sid \<and> (\<exists>u. (c, u) \<in> set al \<and> idle u \<and> commonInterests u ints \<noteq> [])"
  by (induction sid ints al rule: interest_pass.induct) (auto split: if_splits)

lemma fallback_pass_Some:
  "fallback_pass sid al = Some c \<Longrightarrow> c \<noteq> sid \<and> (\<exists>u. (c, u) \<in> set al \<and> idle u)"
  by (induction sid al rule: fallback_pass.induct) (auto split: if_splits)

lemma fallback_pass_None:
  "fallback_pass sid al = None \<longleftrightarrow> (\<forall>(x, u) \<in> set al. x = sid \<or> \<not> idle u)"
  by (induction sid al rule: fallback_pass.induct) auto

lemma commonInterests_inter:
  "commonInterests u ints \<noteq> [] \<longleftrightarrow> set (interests u) \<inter> set ints \<noteq> {}"
  by (auto simp: commonInterests_def filter_empty_conv)

lemma findMatchingUser_Some:
  "findMatchingUser sid ints m = Some c \<Longrightarrow>
     c \<noteq> sid \<and> (\<exists>u. (c, u) \<in> set (onlineUsers m) \<and> idle u)"
  using interest_pass_Some[of sid ints "onlineUsers m" c]
    fallback_pass_Some[of sid "onlineUsers m" c]
  by (auto simp: findMatchingUser_def split: option.splits)

lemma findMatchingUser_None:
  "findMatchingUser sid ints m = None \<longleftrightarrow>
     (\<forall>(x, u) \<in> set (onlineUsers m). x = sid \<or> \<not> idle u)"
proof
  assume "findMatchingUser sid ints m = None"
  then have "fallback_pass sid (onlineUsers m) = None"
    by (simp add: findMatchingUser_def split: option.splits)
  then show "\<forall>(x, u) \<in> set (onlineUsers m). x = sid \<or> \<not> idle u"
    by (simp add: fallback_pass_None)
next
  assume a: "\<forall>(x, u) \<in> set (onlineUsers m). x = sid \<or> \<not> idle u"
  have "interest_pass sid ints (onlineUsers m) = None"
  proof (cases "interest_pass sid ints (onlineUsers m)")
    case None
    then show ?thesis .
  next
    case (Some c)
    from interest_pass_Some[OF Some] a show ?thesis by auto
  qed
  moreover from a have "fallback_pass sid (onlineUsers m) = None"
    by (simp add: fallback_pass_None)
  ultimately show "findMatchingUser sid ints m = None"
    by (simp add: findMatchingUser_def)
qed

text \<open>In a registry with distinct keys an entry of the list is what \<open>getUser\<close> finds.\<close>

lemma wf_entry: "wf_registry m \<Longrightarrow> (x, u) \<in> set (onlineUsers m) \<longleftrightarrow> getUser x m = Some u"
  by (simp add: wf_registry_def getUser_def)

lemma ex_registry_wf: "wf_registry ex_registry"
  by (simp add: wf_registry_def ex_registry_def ascii_def)

text \<open>The earlier copy of the matching function computes the same result.\<close>

lemma interest_pass_legacy_eq: "interest_pass_legacy sid ints al = interest_pass sid ints al"
  by (induction sid ints al rule: interest_pass.induct) (auto simp: commonInterests_def)

lemma findMatchingUser_legacy_eq: "findMatchingUser_legacy sid ints m = findMatchingUser sid ints m"
  by (simp add: findMatchingUser_legacy_def findMatchingUser_def interest_pass_legacy_eq)

text \<open>
  Claim C4. In a registry (a \<open>Map\<close>, so with distinct keys), for every requester id and
  interest list: a candidate returned by \<open>findMatchingUser\<close> is not the requester and its
  entry has no room assigned (\<open>!user.roomId\<close>; where no stored room id is the empty
  string, as in every state the handlers reach, its room id is \<open>null\<close>); a candidate
  found by the interest pass is the result and shares at least one interest with the
  requester; and the result is \<open>null\<close> exactly when every entry is the requester's or has
  a room assigned.
\<close>

theorem findMatchingUser_correct:
  assumes wf: "wf_registry m"
  shows "(findMatchingUser sid ints m = Some c \<longrightarrow>
            c \<noteq> sid \<and> (\<exists>u. getUser c m = Some u \<and> idle u
                            \<and> (room_ids_nonempty m \<longrightarrow> roomId u = None)))
       \<and> (interest_pass sid ints (onlineUsers m) = Some c \<longrightarrow>
            findMatchingUser sid ints m = Some c
            \<and> (\<exists>u. getUser c m = Some u \<and> set (interests u) \<inter> set ints \<noteq> {}))
       \<and> (findMatchingUser sid ints m = None \<longleftrightarrow>
            (\<forall>x u. getUser x m = Some u \<longrightarrow> x = sid \<or> \<not> idle u))"
proof (intro conjI impI)
  assume found: "findMatchingUser sid ints m = Some c"
  from findMatchingUser_Some[OF found] show "c \<noteq> sid" by simp
  from findMatchingUser_Some[OF found] obtain u where u: "getUser c m = Some u" "idle u"
    by (auto simp: wf_entry[OF wf])
  have "roomId u = None" if "room_ids_nonempty m"
    using idle_iff_null[of m c u] that wf u by (simp add: registry_inv_def)
  with u show "\<exists>u. getUser c m = Some u \<and> idle u \<and> (room_ids_nonempty m \<longrightarrow> roomId u = None)"
    by blast
next
  assume ip: "interest_pass sid ints (onlineUsers m) = Some c"
  then show "findMatchingUser sid ints m = Some c"
    by (simp add: findMatchingUser_def)
  from interest_pass_Some[OF ip]
  show "\<exists>u. getUser c m = Some u \<and> set (interests u) \<inter> set ints \<noteq> {}"
    by (auto simp: wf_entry[OF wf] commonInterests_inter)
next
  show "findMatchingUser sid ints m = None \<longleftrightarrow>
            (\<forall>x u. getUser x m = Some u \<longrightarrow> x = sid \<or> \<not> idle u)"
  proof -
    have "(\<forall>(x, u) \<in> set (onlineUsers m). x = sid \<or> \<not> idle u)
          \<longleftrightarrow> (\<forall>x u. (x, u) \<in> set (onlineUsers m) \<longrightarrow> x = sid \<or> \<not> idle u)"
      by auto
    then show ?thesis
      by (simp add: findMatchingUser_None wf_entry[OF wf])
  qed
qed

theorem findMatchingUser_correct_witness:
  "wf_registry ex_registry
   \<and> room_ids_nonempty ex_registry
   \<and> findMatchingUser (ascii ''b'') [ascii ''music''] ex_registry = Some (ascii ''a'')
   \<and> interest_pass (ascii ''b'') [ascii ''music''] (onlineUsers ex_registry) = Some (ascii ''a'')
   \<and> ascii ''a'' \<noteq> ascii ''b''
   \<and> (\<exists>u. getUser (ascii ''a'') ex_registry = Some u \<and> roomId u = None
          \<and> set (interests u) \<inter> set [ascii ''music''] \<noteq> {})"
proof -
  have ip: "interest_pass (ascii ''b'') [ascii ''music''] (onlineUsers ex_registry) = Some (ascii ''a'')"
    by (simp add: ex_registry_def ascii_def user_a_def idle_def commonInterests_def)
  have ne: "room_ids_nonempty ex_registry"
    by (simp add: room_ids_nonempty_def ex_registry_def user_a_def user_b_def user_c_def
        TEXT_CHAT_def ascii_def)
  show ?thesis
    using findMatchingUser_correct[OF ex_registry_wf, of "ascii ''b''" "[ascii ''music'']" "ascii ''a''"]
      ip ne ex_registry_wf
    by auto
qed

section \<open>Properties of the event handlers\<close>

lemma ascii_Nil_iff: "ascii s = [] \<longleftrightarrow> s = []"
  by (simp add: ascii_def)

lemma ascii_inject: "ascii s = ascii t \<longleftrightarrow> s = t"
proof -
  have "inj (of_char :: char \<Rightarrow> nat)" by (rule injI) simp
  then show ?thesis unfolding ascii_def by (simp add: inj_map_eq_map)
qed

lemma trim_examples:
  "trim (ascii ''music'') = ascii ''music''"
  "trim (ascii ''art'') = ascii ''art''"
  by (simp_all add: trim_def ascii_def is_ws_def)

subsection \<open>The example run\<close>

lemma s_waiting_eq:
  "s_waiting = \<lparr>svc = \<lparr>onlineUsers = [(ascii ''a'', user_a)], textChatUsers = {}\<rparr>,
                rooms = (\<lambda>r. {})(ascii ''a'' := {ascii ''a''}),
                sockets = {ascii ''a''}\<rparr>"
  by (simp add: s_waiting_def s_init_def join_a_def on_connection_def on_join_room_def addUser_def
      no_updates_def assign_def interests_or_default_def validateInterests_def MAX_INTERESTS_def
      trim_examples updateUser_def getUser_def findMatchingUser_def no_match_def user_a_def Let_def
      ascii_Nil_iff)

lemma s_arrived_eq:
  "s_arrived = \<lparr>svc = \<lparr>onlineUsers = [(ascii ''a'', user_a),
                    (ascii ''b'', \<lparr>interests = [], roomId = None, username = ascii ''User2''\<rparr>)],
                  textChatUsers = {}\<rparr>,
                rooms = (\<lambda>r. {})(ascii ''a'' := {ascii ''a''}, ascii ''b'' := {ascii ''b''}),
                sockets = {ascii ''b'', ascii ''a''}\<rparr>"
  by (simp add: s_arrived_def s_waiting_eq on_connection_def addUser_def no_updates_def assign_def
      Let_def ascii_inject)

lemma s_arrived_get:
  "getUser (ascii ''b'') (svc s_arrived)
     = Some \<lparr>interests = [], roomId = None, username = ascii ''User2''\<rparr>"
  "findMatchingUser (ascii ''b'') [ascii ''music'', ascii ''art''] (svc s_arrived) = Some (ascii ''a'')"
  "rooms s_arrived (ascii ''a'') = {ascii ''a''}"
  by (simp_all add: s_arrived_eq getUser_def findMatchingUser_def user_a_def idle_def
      commonInterests_def ascii_inject)

lemma s_paired_svc:
  "svc s_paired = \<lparr>onlineUsers = [(ascii ''a'', user_a\<lparr>roomId := Some (ascii ''chat-b-a'')\<rparr>),
                    (ascii ''b'', user_b\<lparr>roomId := Some (ascii ''chat-b-a'')\<rparr>)],
                  textChatUsers = {}\<rparr>"
  by (simp add: s_paired_def s_arrived_eq join_b_def on_join_room_def
      interests_or_default_def validateInterests_def MAX_INTERESTS_def trim_examples
      updateUser_def getUser_def findMatchingUser_def match_found_def user_a_def user_b_def
      Let_def no_updates_def assign_def idle_def commonInterests_def createRoom_def set_room_def
      socket_join_def ascii_Nil_iff ascii_inject)
     (simp add: ascii_def)

lemma s_paired_get:
  "getUser (ascii ''a'') (svc s_paired) = Some (user_a\<lparr>roomId := Some (ascii ''chat-b-a'')\<rparr>)"
  "getUser (ascii ''b'') (svc s_paired) = Some (user_b\<lparr>roomId := Some (ascii ''chat-b-a'')\<rparr>)"
  by (simp_all add: s_paired_svc getUser_def ascii_inject)

lemma s_paired_rooms:
  "rooms s_paired (ascii ''chat-b-a'') = {ascii ''a'', ascii ''b''}"
  by (simp add: s_paired_def s_arrived_eq join_b_def on_join_room_def
      interests_or_default_def validateInterests_def MAX_INTERESTS_def trim_examples
      updateUser_def getUser_def findMatchingUser_def match_found_def user_a_def user_b_def
      Let_def no_updates_def assign_def idle_def commonInterests_def createRoom_def set_room_def
      socket_join_def ascii_Nil_iff ascii_inject)
     (simp add: ascii_def)

lemma pair_room_name:
  "ascii ''chat-b-a'' \<noteq> []" "ascii ''chat-b-a'' \<noteq> TEXT_CHAT" "ascii ''b'' \<noteq> ascii ''a''"
  by (simp_all add: TEXT_CHAT_def ascii_inject ascii_Nil_iff)

text \<open>The definitions a run of the handlers unfolds.\<close>

lemmas handler_defs = on_connection_def on_join_room_def on_leave_room_def addUser_def
  no_updates_def assign_def interests_or_default_def validateInterests_def MAX_INTERESTS_def
  trim_examples updateUser_def getUser_def findMatchingUser_def no_match_def match_found_def
  join_text_chat_def addToTextChat_def socket_join_def socket_to_def io_to_def socket_emit_def
  leaveRoom_def set_room_def createRoom_def idle_def commonInterests_def
  Let_def ascii_Nil_iff ascii_inject text_chat_nonempty

lemma text_chat_neq:
  "TEXT_CHAT \<noteq> ascii ''a''" "TEXT_CHAT \<noteq> ascii ''b''"
  "ascii ''a'' \<noteq> TEXT_CHAT" "ascii ''b'' \<noteq> TEXT_CHAT"
  "JNull \<noteq> JStr TEXT_CHAT"
  by (simp_all add: TEXT_CHAT_def ascii_inject)

lemma s_left_own_eq:
  "s_left_own = \<lparr>svc = \<lparr>onlineUsers = [(ascii ''a'', user_a),
                    (ascii ''b'', \<lparr>interests = [], roomId = None, username = ascii ''User2''\<rparr>)],
                  textChatUsers = {}\<rparr>,
                rooms = (\<lambda>r. {})(ascii ''a'' := {ascii ''a''}, ascii ''b'' := {}),
                sockets = {ascii ''b'', ascii ''a''}\<rparr>"
  by (simp add: s_left_own_def leave_own_def s_arrived_eq handler_defs text_chat_neq)

lemma t_waiting_eq:
  "t_waiting = \<lparr>svc = \<lparr>onlineUsers =
                    [(ascii ''b'', \<lparr>interests = [], roomId = None, username = ascii ''User2''\<rparr>)],
                  textChatUsers = {ascii ''b''}\<rparr>,
                rooms = (\<lambda>r. {})(ascii ''b'' := {ascii ''b''}, TEXT_CHAT := {ascii ''b''}),
                sockets = {ascii ''b''}\<rparr>"
  by (simp add: t_waiting_def s_init_def join_text_def join_any_def handler_defs text_chat_neq)


lemma t_paired_svc:
  "svc t_paired = \<lparr>onlineUsers =
       [(ascii ''b'', \<lparr>interests = [], roomId = Some (ascii ''chat-a-b''), username = ascii ''User2''\<rparr>),
        (ascii ''a'', \<lparr>interests = [], roomId = Some (ascii ''chat-a-b''), username = ascii ''User1''\<rparr>)],
     textChatUsers = {ascii ''a'', ascii ''b''}\<rparr>"
  by (simp add: t_paired_def t_waiting_eq join_text_def join_any_def handler_defs text_chat_neq)
     (simp add: ascii_def)?

lemma t_paired_rooms:
  "rooms t_paired (ascii ''chat-a-b'') = {ascii ''b'', ascii ''a''}"
  "rooms t_paired TEXT_CHAT = {ascii ''a'', ascii ''b''}"
  "sockets t_paired = {ascii ''a'', ascii ''b''}"
  by (simp_all add: t_paired_def t_waiting_eq join_text_def join_any_def handler_defs text_chat_neq)
     (auto simp add: ascii_def TEXT_CHAT_def)

lemma t_paired_get:
  "getUser (ascii ''a'') (svc t_paired)
     = Some \<lparr>interests = [], roomId = Some (ascii ''chat-a-b''), username = ascii ''User1''\<rparr>"
  "getUser (ascii ''b'') (svc t_paired)
     = Some \<lparr>interests = [], roomId = Some (ascii ''chat-a-b''), username = ascii ''User2''\<rparr>"
  "ascii ''a'' \<in> textChatUsers (svc t_paired)"
  by (simp_all add: t_paired_svc getUser_def ascii_inject)

lemma t_room_name:
  "ascii ''chat-a-b'' \<noteq> []" "ascii ''chat-a-b'' \<noteq> TEXT_CHAT" "ascii ''a'' \<noteq> ascii ''b''"
  by (simp_all add: TEXT_CHAT_def ascii_inject ascii_Nil_iff)

lemma t_paired_room_members: "rooms t_paired (ascii ''chat-a-b'') = {ascii ''a'', ascii ''b''}"
  using t_paired_rooms(1) by auto

lemma user1_paired_room:
  "roomId \<lparr>interests = [], roomId = Some (ascii ''chat-a-b''), username = ascii ''User1''\<rparr>
     = Some (ascii ''chat-a-b'')"
  by simp

lemma s_left_own_get:
  "getUser (ascii ''a'') (svc s_left_own) = Some user_a"
  "findMatchingUser (ascii ''a'') [ascii ''music''] (svc s_left_own) = Some (ascii ''b'')"
  "rooms s_left_own (ascii ''b'') = {}"
  by (simp_all add: s_left_own_eq getUser_def findMatchingUser_def user_a_def idle_def
      commonInterests_def ascii_inject)

lemma join_a_valid:
  "validateInterests (interests_or_default join_a) = Accepted [ascii ''music'']"
  "jd_roomId join_a \<noteq> JStr TEXT_CHAT"
  by (simp_all add: join_a_def interests_or_default_def validateInterests_def MAX_INTERESTS_def
      trim_examples ascii_Nil_iff)

subsection \<open>Pairing\<close>

text \<open>Neither pass looks at the requester's own entry.\<close>

lemma interest_pass_update_self:
  "interest_pass sid ints (AList.update sid v al) = interest_pass sid ints al"
  by (induction al) auto

lemma fallback_pass_update_self:
  "fallback_pass sid (AList.update sid v al) = fallback_pass sid al"
  by (induction al) auto

lemma findMatchingUser_updateUser_self:
  "findMatchingUser sid ints (snd (updateUser sid upd m)) = findMatchingUser sid ints m"
  by (simp add: findMatchingUser_def updateUser_def interest_pass_update_self
      fallback_pass_update_self split: option.splits)

lemma room_name_neq: "fst (createRoom a b m) \<noteq> b"
proof
  assume "fst (createRoom a b m) = b"
  then have "length (fst (createRoom a b m)) = length b" by simp
  then show False by (simp add: createRoom_def Let_def ascii_def)
qed

lemma on_join_room_match:
  assumes "getUser sid (svc s) = Some u"
    and "validateInterests (interests_or_default d) = Accepted ints"
    and "jd_roomId d \<noteq> JStr TEXT_CHAT"
    and "findMatchingUser sid ints (svc s) = Some c"
    and "c \<noteq> []"
  shows "on_join_room sid d s =
           match_found sid c ints
             (s\<lparr>svc := snd (updateUser sid (no_updates\<lparr>upd_interests := Some ints\<rparr>) (svc s))\<rparr>)"
  using assms by (simp add: on_join_room_def findMatchingUser_updateUser_self)

lemma rooms_match_found:
  "x \<noteq> fst (createRoom sid c (svc s1)) \<Longrightarrow>
     rooms (fst (match_found sid c ints s1)) x = rooms s1 x"
  by (simp add: match_found_def Let_def socket_join_def)

lemma snd_match_found:
  "snd (match_found sid c ints s1) =
     [(rooms (fst (match_found sid c ints s1)) c,
       MATCH_FOUND (fst (createRoom sid c (svc s1))) False ints),
      ({sid}, MATCH_FOUND (fst (createRoom sid c (svc s1))) True
                (case getUser c (svc s1) of None \<Rightarrow> [] | Some mu \<Rightarrow> interests mu))]"
  by (simp add: match_found_def Let_def io_to_def socket_emit_def)

text \<open>
  The events the match branch emits, in every state: one to the room named by the id of
  the match \<open>c\<close> with \<open>initiator = false\<close>, one to the requester's socket with
  \<open>initiator = true\<close>; and the entry of \<open>c\<close> is assigned the new room.
\<close>

lemma match_found_emitted:
  assumes reg: "getUser sid (svc s) = Some u"
    and val: "validateInterests (interests_or_default d) = Accepted ints"
    and video: "jd_roomId d \<noteq> JStr TEXT_CHAT"
    and found: "findMatchingUser sid ints (svc s) = Some c"
    and truthy_id: "c \<noteq> []"
  shows "snd (on_join_room sid d s) =
           [(rooms s c, MATCH_FOUND (ascii ''chat-'' @ sid @ ascii ''-'' @ c) False ints),
            ({sid}, MATCH_FOUND (ascii ''chat-'' @ sid @ ascii ''-'' @ c) True
                      (case getUser c (svc s) of None \<Rightarrow> [] | Some mu \<Rightarrow> interests mu))]"
    and "map_option roomId (getUser c (svc (fst (on_join_room sid d s))))
           = map_option (\<lambda>u. Some (ascii ''chat-'' @ sid @ ascii ''-'' @ c)) (getUser c (svc s))"
proof -
  let ?s1 = "s\<lparr>svc := snd (updateUser sid (no_updates\<lparr>upd_interests := Some ints\<rparr>) (svc s))\<rparr>"
  let ?r = "ascii ''chat-'' @ sid @ ascii ''-'' @ c"
  have ne: "c \<noteq> sid" using findMatchingUser_Some[OF found] by simp
  have r: "fst (createRoom sid c (svc ?s1)) = ?r" by (simp add: createRoom_def Let_def)
  have "rooms (fst (match_found sid c ints ?s1)) c = rooms ?s1 c"
    using room_name_neq[of sid c "svc ?s1"] by (intro rooms_match_found) simp
  then have rc: "rooms (fst (match_found sid c ints ?s1)) c = rooms s c" by simp
  have g: "getUser c (svc ?s1) = getUser c (svc s)"
    using ne by (simp add: getUser_updateUser)
  have g': "getUser c (snd (updateUser sid (no_updates\<lparr>upd_interests := Some ints\<rparr>) (svc s)))
              = getUser c (svc s)"
    using ne by (simp add: getUser_updateUser)
  show "snd (on_join_room sid d s) =
           [(rooms s c, MATCH_FOUND ?r False ints),
            ({sid}, MATCH_FOUND ?r True
                      (case getUser c (svc s) of None \<Rightarrow> [] | Some mu \<Rightarrow> interests mu))]"
    unfolding on_join_room_match[OF reg val video found truthy_id] snd_match_found rc r g ..
  have "svc (fst (match_found sid c ints ?s1)) = snd (createRoom sid c (svc ?s1))"
    by (simp add: match_found_def Let_def svc_socket_join)
  then show "map_option roomId (getUser c (svc (fst (on_join_room sid d s))))
           = map_option (\<lambda>u. Some ?r) (getUser c (svc s))"
    unfolding on_join_room_match[OF reg val video found truthy_id]
    by (simp add: getUser_createRoom g' option.map_comp comp_def)
qed

text \<open>
  Where the room named by the id of the match \<open>c\<close> holds just \<open>c\<close>, the requester
  receives only the event with \<open>initiator = true\<close> and \<open>c\<close> only the one with
  \<open>initiator = false\<close>.
\<close>

lemma match_found_initiator:
  assumes reg: "getUser sid (svc s) = Some u"
    and val: "validateInterests (interests_or_default d) = Accepted ints"
    and video: "jd_roomId d \<noteq> JStr TEXT_CHAT"
    and found: "findMatchingUser sid ints (svc s) = Some c"
    and truthy_id: "c \<noteq> []"
    and own_room: "rooms s c = {c}"
  shows "c \<noteq> sid
       \<and> (\<exists>mi. snd (on_join_room sid d s) =
             [({c}, MATCH_FOUND (ascii ''chat-'' @ sid @ ascii ''-'' @ c) False ints),
              ({sid}, MATCH_FOUND (ascii ''chat-'' @ sid @ ascii ''-'' @ c) True mi)]
           \<and> delivered sid (snd (on_join_room sid d s)) =
               [MATCH_FOUND (ascii ''chat-'' @ sid @ ascii ''-'' @ c) True mi]
           \<and> delivered c (snd (on_join_room sid d s)) =
               [MATCH_FOUND (ascii ''chat-'' @ sid @ ascii ''-'' @ c) False ints])"
proof -
  let ?s1 = "s\<lparr>svc := snd (updateUser sid (no_updates\<lparr>upd_interests := Some ints\<rparr>) (svc s))\<rparr>"
  let ?r = "ascii ''chat-'' @ sid @ ascii ''-'' @ c"
  have ne: "c \<noteq> sid" using findMatchingUser_Some[OF found] by simp
  have r: "fst (createRoom sid c (svc ?s1)) = ?r" by (simp add: createRoom_def Let_def)
  have "rooms (fst (match_found sid c ints ?s1)) c = rooms ?s1 c"
    using room_name_neq[of sid c "svc ?s1"] by (intro rooms_match_found) simp
  then have rc: "rooms (fst (match_found sid c ints ?s1)) c = {c}" using own_room by simp
  have out: "snd (on_join_room sid d s) =
      [({c}, MATCH_FOUND ?r False ints),
       ({sid}, MATCH_FOUND ?r True
                 (case getUser c (svc ?s1) of None \<Rightarrow> [] | Some mu \<Rightarrow> interests mu))]"
    unfolding on_join_room_match[OF reg val video found truthy_id] snd_match_found rc r ..
  show ?thesis
    using ne unfolding out by (auto simp: delivered_def)
qed

lemma join_b_valid:
  "validateInterests (interests_or_default join_b) = Accepted [ascii ''music'', ascii ''art'']"
  "jd_roomId join_b \<noteq> JStr TEXT_CHAT"
  by (simp_all add: join_b_def interests_or_default_def validateInterests_def MAX_INTERESTS_def
      trim_examples ascii_Nil_iff)

lemma match_found_initiator_example:
  "findMatchingUser (ascii ''b'') [ascii ''music'', ascii ''art''] (svc s_arrived) = Some (ascii ''a'')
   \<and> snd (on_join_room (ascii ''b'') join_b s_arrived) =
       [({ascii ''a''}, MATCH_FOUND (ascii ''chat-b-a'') False [ascii ''music'', ascii ''art'']),
        ({ascii ''b''}, MATCH_FOUND (ascii ''chat-b-a'') True [ascii ''music''])]
   \<and> delivered (ascii ''b'') (snd (on_join_room (ascii ''b'') join_b s_arrived)) =
       [MATCH_FOUND (ascii ''chat-b-a'') True [ascii ''music'']]
   \<and> delivered (ascii ''a'') (snd (on_join_room (ascii ''b'') join_b s_arrived)) =
       [MATCH_FOUND (ascii ''chat-b-a'') False [ascii ''music'', ascii ''art'']]"
proof -
  have ne: "ascii ''a'' \<noteq> []" by (simp add: ascii_Nil_iff)
  have nm: "ascii ''chat-'' @ ascii ''b'' @ ascii ''-'' @ ascii ''a'' = ascii ''chat-b-a''"
    by (simp add: ascii_def)
  have mi: "getUser (ascii ''a'')
              (snd (updateUser (ascii ''b'')
                     (no_updates\<lparr>upd_interests := Some [ascii ''music'', ascii ''art'']\<rparr>)
                     (svc s_arrived))) = Some user_a"
    by (simp add: getUser_updateUser ascii_inject) (simp add: s_arrived_eq getUser_def)
  have cr: "\<And>M. fst (createRoom (ascii ''b'') (ascii ''a'') M) = ascii ''chat-b-a''"
    by (simp add: createRoom_def Let_def nm)
  have ra: "\<And>M. rooms (fst (match_found (ascii ''b'') (ascii ''a'') [ascii ''music'', ascii ''art'']
                (s_arrived\<lparr>svc := M\<rparr>))) (ascii ''a'') = {ascii ''a''}"
    by (simp add: rooms_match_found cr ascii_inject s_arrived_get(3))
  have out: "snd (on_join_room (ascii ''b'') join_b s_arrived) =
       [({ascii ''a''}, MATCH_FOUND (ascii ''chat-b-a'') False [ascii ''music'', ascii ''art'']),
        ({ascii ''b''}, MATCH_FOUND (ascii ''chat-b-a'') True [ascii ''music''])]"
    unfolding on_join_room_match[OF s_arrived_get(1) join_b_valid s_arrived_get(2) ne]
      snd_match_found
    by (simp add: ra cr mi user_a_def)
  show ?thesis
    using match_found_initiator[OF s_arrived_get(1) join_b_valid s_arrived_get(2) ne s_arrived_get(3)]
      s_arrived_get(2) out
    by (simp add: nm)
qed

text \<open>
  Claim C5 fails in the code at the following input. The handler comments its two
  emissions as notifying both users, but it sends the event with \<open>initiator = false\<close>
  to the room named by the match's id, and \<open>leave-room\<close> makes a socket leave whatever
  room id the client names, its own included. In the run where \<open>b\<close> has sent
  \<open>leave-room\<close> with its own id, the pairing request of \<open>a\<close> finds \<open>b\<close>: \<open>a\<close> receives
  \<open>initiator = true\<close>, \<open>b\<close> receives no \<open>match-found\<close> event at all, and the entry of
  \<open>b\<close> is assigned the new room.
\<close>

theorem match_found_counterpart_unnotified:
  "findMatchingUser (ascii ''a'') [ascii ''music''] (svc s_left_own) = Some (ascii ''b'')
   \<and> snd (on_join_room (ascii ''a'') join_a s_left_own) =
       [({}, MATCH_FOUND (ascii ''chat-a-b'') False [ascii ''music'']),
        ({ascii ''a''}, MATCH_FOUND (ascii ''chat-a-b'') True [])]
   \<and> delivered (ascii ''a'') (snd (on_join_room (ascii ''a'') join_a s_left_own)) =
       [MATCH_FOUND (ascii ''chat-a-b'') True []]
   \<and> delivered (ascii ''b'') (snd (on_join_room (ascii ''a'') join_a s_left_own)) = []
   \<and> map_option roomId (getUser (ascii ''b'') (svc (fst (on_join_room (ascii ''a'') join_a s_left_own))))
       = Some (Some (ascii ''chat-a-b''))"
proof -
  have ne: "ascii ''b'' \<noteq> []" by (simp add: ascii_Nil_iff)
  have nm: "ascii ''chat-'' @ ascii ''a'' @ ascii ''-'' @ ascii ''b'' = ascii ''chat-a-b''"
    by (simp add: ascii_def)
  have gb: "getUser (ascii ''b'') (svc s_left_own)
              = Some \<lparr>interests = [], roomId = None, username = ascii ''User2''\<rparr>"
    by (simp add: s_left_own_eq getUser_def ascii_inject)
  note e = match_found_emitted[OF s_left_own_get(1) join_a_valid s_left_own_get(2) ne]
  show ?thesis
    using e by (simp add: s_left_own_get nm gb delivered_def ascii_inject)
qed

subsection \<open>Leaving and disconnecting\<close>

text \<open>
  A pair: \<open>a\<close> and \<open>b\<close> are registered, \<open>a\<close>'s room id is \<open>r\<close> (not empty, not the text
  chat) and the room \<open>r\<close> holds exactly \<open>a\<close> and \<open>b\<close>. \<open>a\<close> leaves \<open>r\<close> with a truthy
  reason.
\<close>

lemma leave_room_pair:
  assumes a_reg: "getUser a (svc s) = Some ua"
    and b_reg: "getUser b (svc s) = Some ub"
    and ab: "a \<noteq> b"
    and a_room: "roomId ua = Some r"
    and pair_room: "r \<noteq> []" "r \<noteq> TEXT_CHAT"
    and members_r: "rooms s r = {a, b}"
    and reason: "truthy v"
  shows "snd (on_leave_room a \<lparr>ld_roomId = JStr r, ld_reason = v\<rparr> s)
           = [({b}, USER_LEFT (Some v) (Some (username ua)))]"
    and "getUser a (svc (fst (on_leave_room a \<lparr>ld_roomId = JStr r, ld_reason = v\<rparr> s)))
           = Some (ua\<lparr>roomId := None\<rparr>)"
    and "getUser b (svc (fst (on_leave_room a \<lparr>ld_roomId = JStr r, ld_reason = v\<rparr> s)))
           = Some ub"
    and "rooms (fst (on_leave_room a \<lparr>ld_roomId = JStr r, ld_reason = v\<rparr> s)) r = {b}"
proof -
  have nid: "\<not> idle ua" using a_room pair_room by (simp add: idle_def)
  have m: "{a, b} - {a} = {b}" using ab by auto
  show "snd (on_leave_room a \<lparr>ld_roomId = JStr r, ld_reason = v\<rparr> s)
           = [({b}, USER_LEFT (Some v) (Some (username ua)))]"
    using a_reg pair_room members_r reason m
    by (simp add: on_leave_room_def socket_to_def)
  show "getUser a (svc (fst (on_leave_room a \<lparr>ld_roomId = JStr r, ld_reason = v\<rparr> s)))
           = Some (ua\<lparr>roomId := None\<rparr>)"
    using a_reg pair_room nid
    by (simp add: on_leave_room_def leaveRoom_def getUser_set_room)
  show "getUser b (svc (fst (on_leave_room a \<lparr>ld_roomId = JStr r, ld_reason = v\<rparr> s)))
           = Some ub"
    using a_reg b_reg ab pair_room nid
    by (simp add: on_leave_room_def leaveRoom_def getUser_set_room)
  show "rooms (fst (on_leave_room a \<lparr>ld_roomId = JStr r, ld_reason = v\<rparr> s)) r = {b}"
    using a_reg pair_room members_r m
    by (simp add: on_leave_room_def)
qed

lemma skip_truthy: "truthy (JStr SKIP)"
  by (simp add: SKIP_def ascii_Nil_iff)

text \<open>The same pair; \<open>a\<close> disconnects.\<close>

lemma disconnect_pair:
  assumes a_reg: "getUser a (svc s) = Some ua"
    and b_reg: "getUser b (svc s) = Some ub"
    and ab: "a \<noteq> b"
    and a_room: "roomId ua = Some r"
    and pair_room: "r \<noteq> []" "r \<noteq> TEXT_CHAT"
    and members_r: "rooms s r = {a, b}"
  shows "getUser a (svc (fst (on_disconnect a s))) = None"
    and "getUser b (svc (fst (on_disconnect a s))) = Some ub"
    and "filter (left_with_reason DISCONNECTED) (delivered b (snd (on_disconnect a s)))
           = [USER_LEFT (Some (JStr DISCONNECTED)) (Some (username ua))]"
proof -
  have m: "{a, b} - {a} = {b}" using ab by auto
  show "getUser a (svc (fst (on_disconnect a s))) = None"
    by (simp add: on_disconnect_def Let_def getUser_removeUser)
  show "getUser b (svc (fst (on_disconnect a s))) = Some ub"
    using ab b_reg by (simp add: on_disconnect_def Let_def getUser_removeUser)
  show "filter (left_with_reason DISCONNECTED) (delivered b (snd (on_disconnect a s)))
           = [USER_LEFT (Some (JStr DISCONNECTED)) (Some (username ua))]"
    using a_reg a_room pair_room members_r m
    by (simp add: on_disconnect_def Let_def delivered_def io_to_def io_emit_def)
qed

lemma disconnect_pair_left:
  assumes a_reg: "getUser a (svc s) = Some ua"
    and ab: "a \<noteq> b"
    and a_room: "roomId ua = Some r"
    and pair_room: "r \<noteq> []" "r \<noteq> TEXT_CHAT"
    and members_r: "rooms s r = {a, b}"
  shows "filter is_user_left (delivered b (snd (on_disconnect a s)))
           = USER_LEFT (Some (JStr DISCONNECTED)) (Some (username ua))
             # (if a \<in> textChatUsers (svc s) \<and> b \<in> rooms s TEXT_CHAT
                then [USER_LEFT None (Some (username ua))] else [])"
proof -
  have m: "{a, b} - {a} = {b}" using ab by auto
  show ?thesis
    using a_reg a_room pair_room members_r m ab
    by (simp add: on_disconnect_def Let_def delivered_def io_to_def io_emit_def isInTextChat_def)
qed

lemma s_paired_room_members: "rooms s_paired (ascii ''chat-b-a'') = {ascii ''b'', ascii ''a''}"
  using s_paired_rooms by auto

lemma user_b_paired_room:
  "roomId (user_b\<lparr>roomId := Some (ascii ''chat-b-a'')\<rparr>) = Some (ascii ''chat-b-a'')"
  by simp

text \<open>
  Claim C2, as stated, fails. In the example run \<open>a\<close> and \<open>b\<close> are paired in room
  \<open>chat-b-a\<close>; after \<open>b\<close> leaves that room with reason \<open>skip\<close>, the room id of the
  remaining member \<open>a\<close> is still \<open>chat-b-a\<close>, not \<open>null\<close>.
\<close>

theorem leave_skip_peer_room_kept:
  "map_option roomId (getUser (ascii ''a'') (svc s_paired)) = Some (Some (ascii ''chat-b-a''))
   \<and> map_option roomId (getUser (ascii ''b'') (svc s_paired)) = Some (Some (ascii ''chat-b-a''))
   \<and> rooms s_paired (ascii ''chat-b-a'') = {ascii ''a'', ascii ''b''}
   \<and> map_option roomId (getUser (ascii ''a'') (svc (fst (on_leave_room (ascii ''b'')
         \<lparr>ld_roomId = JStr (ascii ''chat-b-a''), ld_reason = JStr SKIP\<rparr> s_paired))))
       = Some (Some (ascii ''chat-b-a''))"
  using leave_room_pair(3)[OF s_paired_get(2) s_paired_get(1) pair_room_name(3)
      user_b_paired_room pair_room_name(1,2) s_paired_room_members skip_truthy]
  by (simp add: s_paired_get s_paired_rooms)

text \<open>
  Claim C2, amended. When a member \<open>a\<close> of a pair (both members registered with room id
  \<open>r\<close>, the room \<open>r\<close> holding exactly the two) sends \<open>leave-room\<close> for \<open>r\<close> with reason
  \<open>skip\<close>: exactly one event is emitted, a \<open>user-left\<close> with reason \<open>skip\<close> and the
  leaver's name, to the remaining member \<open>b\<close> alone; the leaver's room id becomes
  \<open>null\<close> and it leaves the room; the remaining member's entry is unchanged, so its
  room id is still \<open>r\<close>.
\<close>

theorem leave_skip_effect:
  assumes a_reg: "getUser a (svc s) = Some ua"
    and b_reg: "getUser b (svc s) = Some ub"
    and ab: "a \<noteq> b"
    and a_room: "roomId ua = Some r"
    and b_room: "roomId ub = Some r"
    and pair_room: "r \<noteq> []" "r \<noteq> TEXT_CHAT"
    and members_r: "rooms s r = {a, b}"
  shows "snd (on_leave_room a \<lparr>ld_roomId = JStr r, ld_reason = JStr SKIP\<rparr> s)
           = [({b}, USER_LEFT (Some (JStr SKIP)) (Some (username ua)))]
       \<and> map_option roomId
           (getUser a (svc (fst (on_leave_room a \<lparr>ld_roomId = JStr r, ld_reason = JStr SKIP\<rparr> s))))
           = Some None
       \<and> getUser b (svc (fst (on_leave_room a \<lparr>ld_roomId = JStr r, ld_reason = JStr SKIP\<rparr> s)))
           = Some ub
       \<and> map_option roomId
           (getUser b (svc (fst (on_leave_room a \<lparr>ld_roomId = JStr r, ld_reason = JStr SKIP\<rparr> s))))
           = Some (Some r)
       \<and> rooms (fst (on_leave_room a \<lparr>ld_roomId = JStr r, ld_reason = JStr SKIP\<rparr> s)) r = {b}"
  using leave_room_pair[OF a_reg b_reg ab a_room pair_room members_r skip_truthy] b_room
  by simp

theorem leave_skip_effect_witness:
  "getUser (ascii ''b'') (svc s_paired) = Some (user_b\<lparr>roomId := Some (ascii ''chat-b-a'')\<rparr>)
   \<and> getUser (ascii ''a'') (svc s_paired) = Some (user_a\<lparr>roomId := Some (ascii ''chat-b-a'')\<rparr>)
   \<and> snd (on_leave_room (ascii ''b'')
            \<lparr>ld_roomId = JStr (ascii ''chat-b-a''), ld_reason = JStr SKIP\<rparr> s_paired)
       = [({ascii ''a''}, USER_LEFT (Some (JStr SKIP)) (Some (ascii ''User2'')))]
   \<and> map_option roomId (getUser (ascii ''b'') (svc (fst (on_leave_room (ascii ''b'')
            \<lparr>ld_roomId = JStr (ascii ''chat-b-a''), ld_reason = JStr SKIP\<rparr> s_paired))))
       = Some None
   \<and> rooms (fst (on_leave_room (ascii ''b'')
            \<lparr>ld_roomId = JStr (ascii ''chat-b-a''), ld_reason = JStr SKIP\<rparr> s_paired))
         (ascii ''chat-b-a'') = {ascii ''a''}"
proof -
  have ra: "roomId (user_a\<lparr>roomId := Some (ascii ''chat-b-a'')\<rparr>) = Some (ascii ''chat-b-a'')"
    by simp
  show ?thesis
    using leave_skip_effect[OF s_paired_get(2) s_paired_get(1) pair_room_name(3)
        user_b_paired_room ra pair_room_name(1,2) s_paired_room_members]
    by (simp add: s_paired_get user_b_def)
qed

text \<open>
  Claim C3, as stated, fails. In the run where both participants are also in the text
  chat, \<open>a\<close> and \<open>b\<close> are paired in room \<open>chat-a-b\<close>; after \<open>a\<close> disconnects, the room
  id of the remaining member \<open>b\<close> is still \<open>chat-a-b\<close>, not \<open>null\<close>, and \<open>b\<close> has been
  sent two \<open>user-left\<close> events, one with reason \<open>disconnected\<close> and one without a
  reason.
\<close>

theorem disconnect_peer_room_kept:
  "map_option roomId (getUser (ascii ''a'') (svc t_paired)) = Some (Some (ascii ''chat-a-b''))
   \<and> map_option roomId (getUser (ascii ''b'') (svc t_paired)) = Some (Some (ascii ''chat-a-b''))
   \<and> rooms t_paired (ascii ''chat-a-b'') = {ascii ''a'', ascii ''b''}
   \<and> map_option roomId (getUser (ascii ''b'') (svc (fst (on_disconnect (ascii ''a'') t_paired))))
       = Some (Some (ascii ''chat-a-b''))
   \<and> filter is_user_left (delivered (ascii ''b'') (snd (on_disconnect (ascii ''a'') t_paired)))
       = [USER_LEFT (Some (JStr DISCONNECTED)) (Some (ascii ''User1'')),
          USER_LEFT None (Some (ascii ''User1''))]"
  using disconnect_pair(2)[OF t_paired_get(1) t_paired_get(2) t_room_name(3)
      user1_paired_room t_room_name(1,2) t_paired_room_members]
    disconnect_pair_left[OF t_paired_get(1) t_room_name(3)
      user1_paired_room t_room_name(1,2) t_paired_room_members]
  by (simp add: t_paired_get t_paired_room_members t_paired_rooms(2))

text \<open>
  Claim C3, amended. When a member \<open>a\<close> of a pair (both members registered with room id
  \<open>r\<close>, the room \<open>r\<close> holding exactly the two) disconnects: \<open>a\<close> is removed from the
  registry; the remaining member's entry is unchanged, so when the handler returns its
  room id is still \<open>r\<close>; exactly one \<open>user-left\<close> event with reason \<open>disconnected\<close>
  reaches the remaining member \<open>b\<close>, carrying \<open>a\<close>'s name; if \<open>a\<close> is in the text chat
  set and \<open>b\<close> is in the text chat room, one more \<open>user-left\<close> event reaches \<open>b\<close>,
  without a reason, and otherwise no other \<open>user-left\<close> event does.
\<close>

theorem disconnect_effect:
  assumes a_reg: "getUser a (svc s) = Some ua"
    and b_reg: "getUser b (svc s) = Some ub"
    and ab: "a \<noteq> b"
    and a_room: "roomId ua = Some r"
    and b_room: "roomId ub = Some r"
    and pair_room: "r \<noteq> []" "r \<noteq> TEXT_CHAT"
    and members_r: "rooms s r = {a, b}"
  shows "getUser a (svc (fst (on_disconnect a s))) = None
       \<and> filter (left_with_reason DISCONNECTED) (delivered b (snd (on_disconnect a s)))
           = [USER_LEFT (Some (JStr DISCONNECTED)) (Some (username ua))]
       \<and> filter is_user_left (delivered b (snd (on_disconnect a s)))
           = USER_LEFT (Some (JStr DISCONNECTED)) (Some (username ua))
             # (if a \<in> textChatUsers (svc s) \<and> b \<in> rooms s TEXT_CHAT
                then [USER_LEFT None (Some (username ua))] else [])
       \<and> getUser b (svc (fst (on_disconnect a s))) = Some ub
       \<and> map_option roomId (getUser b (svc (fst (on_disconnect a s)))) = Some (Some r)"
  using disconnect_pair[OF a_reg b_reg ab a_room pair_room members_r]
    disconnect_pair_left[OF a_reg ab a_room pair_room members_r] b_room
  by simp

theorem disconnect_effect_witness:
  "getUser (ascii ''b'') (svc s_paired) = Some (user_b\<lparr>roomId := Some (ascii ''chat-b-a'')\<rparr>)
   \<and> getUser (ascii ''a'') (svc s_paired) = Some (user_a\<lparr>roomId := Some (ascii ''chat-b-a'')\<rparr>)
   \<and> getUser (ascii ''b'') (svc (fst (on_disconnect (ascii ''b'') s_paired))) = None
   \<and> map_option roomId (getUser (ascii ''a'') (svc (fst (on_disconnect (ascii ''b'') s_paired))))
       = Some (Some (ascii ''chat-b-a''))
   \<and> filter is_user_left
        (delivered (ascii ''a'') (snd (on_disconnect (ascii ''b'') s_paired)))
       = [USER_LEFT (Some (JStr DISCONNECTED)) (Some (ascii ''User2''))]
   \<and> filter is_user_left
        (delivered (ascii ''b'') (snd (on_disconnect (ascii ''a'') t_paired)))
       = [USER_LEFT (Some (JStr DISCONNECTED)) (Some (ascii ''User1'')),
          USER_LEFT None (Some (ascii ''User1''))]"
proof -
  have ra: "roomId (user_a\<lparr>roomId := Some (ascii ''chat-b-a'')\<rparr>) = Some (ascii ''chat-b-a'')"
    by simp
  have tc: "textChatUsers (svc s_paired) = {}"
    by (simp add: s_paired_svc)
  have r2: "roomId \<lparr>interests = [], roomId = Some (ascii ''chat-a-b''), username = ascii ''User2''\<rparr>
              = Some (ascii ''chat-a-b'')"
    by simp
  show ?thesis
    using disconnect_effect[OF s_paired_get(2) s_paired_get(1) pair_room_name(3)
        user_b_paired_room ra pair_room_name(1,2) s_paired_room_members]
      disconnect_effect[OF t_paired_get(1) t_paired_get(2) t_room_name(3)
        user1_paired_room r2 t_room_name(1,2) t_paired_room_members]
    by (simp add: s_paired_get user_b_def tc t_paired_get t_paired_rooms(2))
qed

end
